theory Spec2Isabelle
  imports Complex_Main "HOL-Library.Word"
begin

section \<open>Data model of the controller firmware\<close>

text \<open>
  The firmware exists in two variants of one program: the template
  \<^verbatim>\<open>src/ja485_2.cpp\<close>, whose \<^verbatim>\<open>PushNow\<close> pretends that the send succeeded and
  whose \<^verbatim>\<open>loop\<close> is empty, and the complete variant, which adds
  \<^verbatim>\<open>sendReadingsToServer\<close>, \<^verbatim>\<open>lastServerPush\<close> and the scheduled push. All other
  functions are the same text in both. The shared functions are embedded once;
  \<^verbatim>\<open>PushNow\<close> and \<^verbatim>\<open>loop\<close> are embedded in both variants (the template's carry the
  suffix \<open>_template\<close>). \<^verbatim>\<open>SoftReset\<close> restarts the device and does not return; it is
  not embedded. The earlier sensor sketch of the repository, with its own cloud
  functions and no stored configuration, is a separate program and is not embedded
  either.

  Conventions of the embedding:
  \<^item> \<^verbatim>\<open>float\<close> is the type \<open>float\<close> below: a finite value, an infinity or NaN.
  \<^item> \<^verbatim>\<open>uint32_t\<close> is \<^typ>\<open>32 word\<close>, so \<^verbatim>\<open>++\<close> wraps around.
  \<^item> \<^verbatim>\<open>time_t\<close> is \<^typ>\<open>int\<close>, \<^verbatim>\<open>String\<close> is \<^typ>\<open>string\<close>.
  \<^item> The globals, the record stored at \<^verbatim>\<open>EEPROM_ADDR\<close> and a trace of the calls
    into the platform (storage writes, readings handed to the send routine, published
    events, log lines) form the state, which every function takes and returns.
  \<^item> Each call of \<^verbatim>\<open>Time.now()\<close> is a parameter of the function that makes it, in
    call order; the outcome of the network exchange is a parameter as well.
  \<^item> \<^verbatim>\<open>sendMutex\<close> is not modelled: the embedding is sequential, where
    \<^verbatim>\<open>lock\<close> followed by \<^verbatim>\<open>unlock\<close> has no effect.
\<close>

type_synonym time_t = int
type_synonym uint32_t = "32 word"

subsection \<open>Single-precision numbers\<close>

text \<open>
  A \<^verbatim>\<open>float\<close> is a finite number, one of the two infinities, or NaN. An ordered
  comparison with NaN is false, whichever side it is on.
\<close>

datatype float = Finite real | PInf | NInf | NaN

definition flt :: "float \<Rightarrow> float \<Rightarrow> bool" where
  "flt a b =
     (case a of
        NaN \<Rightarrow> False
      | PInf \<Rightarrow> False
      | NInf \<Rightarrow> (case b of Finite y \<Rightarrow> True | PInf \<Rightarrow> True | NInf \<Rightarrow> False | NaN \<Rightarrow> False)
      | Finite x \<Rightarrow> (case b of Finite y \<Rightarrow> x < y | PInf \<Rightarrow> True | NInf \<Rightarrow> False | NaN \<Rightarrow> False))"

definition fgt :: "float \<Rightarrow> float \<Rightarrow> bool" where
  "fgt a b = flt b a"

text \<open>
  The bits of a stored \<^verbatim>\<open>float\<close>: one sign bit, eight bits of exponent, 23 bits of
  fraction. An exponent of all ones is an infinity when the fraction is 0 and NaN
  otherwise.
\<close>

definition pow2 :: "int \<Rightarrow> real" where
  "pow2 e = (if 0 \<le> e then 2 ^ nat e else 1 / 2 ^ nat (- e))"

definition float_of_bits :: "32 word \<Rightarrow> float" where
  "float_of_bits w =
     (let n = unat w;
          negative = (n div 2 ^ 31 = 1);
          e = (n div 2 ^ 23) mod 256;
          m = n mod 2 ^ 23
      in if e = 255 then (if m = 0 then (if negative then NInf else PInf) else NaN)
         else let v = (if e = 0 then real m * pow2 (- 149)
                       else real (2 ^ 23 + m) * pow2 (int e - 150))
              in Finite (if negative then - v else v))"

text \<open>
  Rounding a real number to the nearest \<^verbatim>\<open>float\<close>, ties to the even significand:
  \<open>float_exponent 254 a\<close> is the exponent \<open>e\<close> of the binade of \<open>a\<close>
  (\<open>2 ^ e \<le> a < 2 ^ (e + 1)\<close>, between -126 and 127; -126 below the normal range), the
  significand has 24 bits, and a result of magnitude \<open>2 ^ 128\<close> is an infinity.
\<close>

fun float_exponent :: "nat \<Rightarrow> real \<Rightarrow> int" where
  "float_exponent 0 a = - 126"
| "float_exponent (Suc k) a = (if pow2 (int k - 126) \<le> a then int k - 126 else float_exponent k a)"

definition round_half_even :: "real \<Rightarrow> int" where
  "round_half_even y =
     (let f = \<lfloor>y\<rfloor>; d = y - of_int f
      in if d < 1 / 2 then f else if d > 1 / 2 then f + 1 else if even f then f else f + 1)"

definition round_float :: "real \<Rightarrow> float" where
  "round_float x =
     (let e = float_exponent 254 \<bar>x\<bar>;
          q = pow2 (e - 23);
          r = of_int (round_half_even (x / q)) * q
      in if r \<ge> pow2 128 then PInf else if r \<le> - pow2 128 then NInf else Finite r)"

text \<open>
  Arithmetic. The product is rounded. The difference is taken exactly: the setters
  compare its magnitude with \<^verbatim>\<open>0.0001f\<close>, the difference of two \<^verbatim>\<open>float\<close>s that
  close is itself a \<^verbatim>\<open>float\<close>, and a rounded difference that is not that small
  compares the same way as the exact one. The constants \<^verbatim>\<open>0.1f\<close> and \<^verbatim>\<open>0.0001f\<close>
  are written 0.1 and 0.0001. The \<^verbatim>\<open>float\<close> \<^verbatim>\<open>0.1f\<close> is the least one above 0.1, so
  a \<^verbatim>\<open>float\<close> is below the one exactly when it is below the other. Two
  \<^verbatim>\<open>float\<close>s of at least 0.0625 differ by a multiple of \<open>2 ^ -27\<close>, and no such
  multiple is at least \<^verbatim>\<open>0.0001f\<close> and below 0.0001 (lemmas \<open>float_01_gap\<close> and
  \<open>float_00001_gap\<close>).
\<close>

definition fsub :: "float \<Rightarrow> float \<Rightarrow> float" where
  "fsub a b =
     (case a of
        NaN \<Rightarrow> NaN
      | Finite x \<Rightarrow> (case b of Finite y \<Rightarrow> Finite (x - y) | PInf \<Rightarrow> NInf | NInf \<Rightarrow> PInf | NaN \<Rightarrow> NaN)
      | PInf \<Rightarrow> (case b of Finite y \<Rightarrow> PInf | PInf \<Rightarrow> NaN | NInf \<Rightarrow> PInf | NaN \<Rightarrow> NaN)
      | NInf \<Rightarrow> (case b of Finite y \<Rightarrow> NInf | PInf \<Rightarrow> NInf | NInf \<Rightarrow> NaN | NaN \<Rightarrow> NaN))"

definition fabs :: "float \<Rightarrow> float" where
  "fabs a = (case a of Finite x \<Rightarrow> Finite \<bar>x\<bar> | PInf \<Rightarrow> PInf | NInf \<Rightarrow> PInf | NaN \<Rightarrow> NaN)"

definition fmul :: "float \<Rightarrow> float \<Rightarrow> float" where
  "fmul a b =
     (case a of
        NaN \<Rightarrow> NaN
      | Finite x \<Rightarrow>
          (case b of
             Finite y \<Rightarrow> round_float (x * y)
           | PInf \<Rightarrow> (if x = 0 then NaN else if x > 0 then PInf else NInf)
           | NInf \<Rightarrow> (if x = 0 then NaN else if x > 0 then NInf else PInf)
           | NaN \<Rightarrow> NaN)
      | PInf \<Rightarrow>
          (case b of
             Finite y \<Rightarrow> (if y = 0 then NaN else if y > 0 then PInf else NInf)
           | PInf \<Rightarrow> PInf | NInf \<Rightarrow> NInf | NaN \<Rightarrow> NaN)
      | NInf \<Rightarrow>
          (case b of
             Finite y \<Rightarrow> (if y = 0 then NaN else if y > 0 then NInf else PInf)
           | PInf \<Rightarrow> NInf | NInf \<Rightarrow> PInf | NaN \<Rightarrow> NaN))"

subsection \<open>Structures and state\<close>

record ActionResult =
  status :: string
  error_reason :: string
  http_status :: "int option"  \<comment> \<open>\<open>None\<close>: the field was never assigned\<close>

record ConfigParam =
  current_value :: float
  last_changed_unix :: time_t
  last_changed_iso :: string
  last_changed_source :: string

record ConfigPayload =
  status_cfg :: string
  device_id_cfg :: string
  firmware_version_cfg :: string
  boot_count_cfg :: uint32_t
  send_success_count :: uint32_t
  send_fail_count :: uint32_t
  display_interval_cfg :: ConfigParam
  server_interval_cfg :: ConfigParam

record ReadingPayload =
  status_rd :: string
  sample_id :: uint32_t
  device_id :: string
  firmware_version :: string
  server_interval_rd :: float
  display_interval_rd :: float
  unix_ts :: time_t
  iso_time :: string
  dummy_value :: float

record PersistentConfig =
  display_interval :: float
  server_interval :: float
  boot_count :: uint32_t

text \<open>
  The providers of the platform header: device identity, firmware version and the
  calendar helpers of \<^verbatim>\<open>Time\<close>.
\<close>

record platform =
  deviceID :: string
  version :: string
  year :: "time_t \<Rightarrow> int"
  month :: "time_t \<Rightarrow> int"
  day :: "time_t \<Rightarrow> int"
  hour :: "time_t \<Rightarrow> int"
  minute :: "time_t \<Rightarrow> int"
  second :: "time_t \<Rightarrow> int"

datatype log_level = LogInfo | LogError

record state =
  eeprom :: PersistentConfig  \<comment> \<open>the record stored at \<^verbatim>\<open>EEPROM_ADDR\<close>\<close>
  eeprom_puts :: nat  \<comment> \<open>number of calls of \<^verbatim>\<open>EEPROM.put\<close> so far\<close>
  persistent :: PersistentConfig
  displayIntervalCfg :: ConfigParam
  serverIntervalCfg :: ConfigParam
  sendSuccessCount :: uint32_t
  sendFailCount :: uint32_t
  sampleCounter :: uint32_t
  lastServerPush :: time_t
  sent :: "ReadingPayload list"  \<comment> \<open>readings handed to \<^verbatim>\<open>sendReadingsToServer\<close>\<close>
  published :: "(string \<times> string) list"  \<comment> \<open>\<^verbatim>\<open>Particle.publish\<close>: event and data\<close>
  logged :: "(log_level \<times> string \<times> int) list"  \<comment> \<open>\<^verbatim>\<open>Log\<close>: level, format, argument\<close>

text \<open>
  The globals as the program starts: objects of static storage are zero-initialised,
  a default-constructed \<^verbatim>\<open>String\<close> is empty, and the three counters and
  \<^verbatim>\<open>lastServerPush\<close> are initialised to 0. The stored record is whatever the storage
  holds.
\<close>

definition zero_param :: ConfigParam where
  "zero_param = \<lparr>current_value = Finite 0, last_changed_unix = 0, last_changed_iso = [],
     last_changed_source = []\<rparr>"

definition boot_state :: "PersistentConfig \<Rightarrow> state" where
  "boot_state rom = \<lparr>eeprom = rom, eeprom_puts = 0,
     persistent = \<lparr>display_interval = Finite 0, server_interval = Finite 0, boot_count = 0\<rparr>,
     displayIntervalCfg = zero_param, serverIntervalCfg = zero_param,
     sendSuccessCount = 0, sendFailCount = 0, sampleCounter = 0, lastServerPush = 0,
     sent = [], published = [], logged = []\<rparr>"

section \<open>Utility functions\<close>

text \<open>\<^verbatim>\<open>%0wd\<close> of \<^verbatim>\<open>snprintf\<close>: decimal digits, zero-padded to the width, sign first.\<close>

fun dec :: "nat \<Rightarrow> string" where
  "dec n = (if n < 10 then [char_of (48 + n)] else dec (n div 10) @ [char_of (48 + n mod 10)])"

declare dec.simps [simp del]

definition zero_pad :: "nat \<Rightarrow> string \<Rightarrow> string" where
  "zero_pad w ds = replicate (w - length ds) (CHR ''0'') @ ds"

definition fmt_0d :: "nat \<Rightarrow> int \<Rightarrow> string" where
  "fmt_0d w i = (if i < 0 then CHR ''-'' # zero_pad (w - 1) (dec (nat (- i)))
                 else zero_pad w (dec (nat i)))"

text \<open>The buffer has 32 bytes, so \<^verbatim>\<open>snprintf\<close> keeps at most 31 characters.\<close>

definition iso8601FromTime :: "platform \<Rightarrow> time_t \<Rightarrow> string" where
  "iso8601FromTime p ts = take 31
     (fmt_0d 4 (year p ts) @ ''-'' @ fmt_0d 2 (month p ts) @ ''-'' @ fmt_0d 2 (day p ts) @ ''T'' @
      fmt_0d 2 (hour p ts) @ '':'' @ fmt_0d 2 (minute p ts) @ '':'' @ fmt_0d 2 (second p ts) @ ''Z'')"

text \<open>
  \<^verbatim>\<open>loadPersistent\<close>: \<open>t1\<close> and \<open>t2\<close> are its two readings of the clock.
\<close>

definition loadPersistent :: "platform \<Rightarrow> time_t \<Rightarrow> time_t \<Rightarrow> state \<Rightarrow> state" where
  "loadPersistent p t1 t2 s =
     (let per = eeprom s;
          per = (if flt (display_interval per) (Finite 0.1) \<or> fgt (display_interval per) (Finite 60.0)
                 then per\<lparr>display_interval := Finite 1.0\<rparr> else per);
          per = (if flt (server_interval per) (Finite 0.1) \<or> fgt (server_interval per) (Finite 60.0)
                 then per\<lparr>server_interval := Finite 5.0\<rparr> else per)
      in s\<lparr>persistent := per,
           displayIntervalCfg := \<lparr>current_value = display_interval per, last_changed_unix = t1,
             last_changed_iso = iso8601FromTime p t1, last_changed_source = ''EEPROM''\<rparr>,
           serverIntervalCfg := \<lparr>current_value = server_interval per, last_changed_unix = t2,
             last_changed_iso = iso8601FromTime p t2, last_changed_source = ''EEPROM''\<rparr>\<rparr>)"

definition savePersistent :: "state \<Rightarrow> state" where
  "savePersistent s =
     (let per = (persistent s)\<lparr>display_interval := current_value (displayIntervalCfg s),
                               server_interval := current_value (serverIntervalCfg s)\<rparr>
      in s\<lparr>persistent := per, eeprom := per, eeprom_puts := Suc (eeprom_puts s)\<rparr>)"

section \<open>API functions\<close>

text \<open>\<^verbatim>\<open>GetReadings\<close>: \<open>t\<close> is its reading of the clock.\<close>

definition GetReadings :: "platform \<Rightarrow> time_t \<Rightarrow> state \<Rightarrow> ReadingPayload \<times> state" where
  "GetReadings p t s =
     (let s' = s\<lparr>sampleCounter := sampleCounter s + 1\<rparr>
      in (\<lparr>status_rd = ''ok'', sample_id = sampleCounter s', device_id = deviceID p,
            firmware_version = version p,
            server_interval_rd = current_value (serverIntervalCfg s'),
            display_interval_rd = current_value (displayIntervalCfg s'),
            unix_ts = t, iso_time = iso8601FromTime p t, dummy_value = Finite 0.0\<rparr>, s'))"

definition GetConfig :: "platform \<Rightarrow> state \<Rightarrow> ConfigPayload" where
  "GetConfig p s = \<lparr>status_cfg = ''ok'', device_id_cfg = deviceID p,
     firmware_version_cfg = version p, boot_count_cfg = boot_count (persistent s),
     send_success_count = sendSuccessCount s, send_fail_count = sendFailCount s,
     display_interval_cfg = displayIntervalCfg s, server_interval_cfg = serverIntervalCfg s\<rparr>"

text \<open>
  A default-constructed \<^verbatim>\<open>ActionResult\<close>: two empty strings and an \<^verbatim>\<open>int\<close> that
  holds no assigned value.
\<close>

definition new_result :: ActionResult where
  "new_result = \<lparr>status = [], error_reason = [], http_status = None\<rparr>"

text \<open>The setters read the clock once, and only when they change the parameter: \<open>t\<close>.\<close>

definition SetDisplayInterval :: "platform \<Rightarrow> time_t \<Rightarrow> float \<Rightarrow> state \<Rightarrow> ActionResult \<times> state" where
  "SetDisplayInterval p t minutes s =
     (if flt minutes (Finite 0.1) \<or> fgt minutes (Finite 60.0)
      then (new_result\<lparr>status := ''error'', error_reason := ''out_of_range''\<rparr>, s)
      else if flt (fabs (fsub (current_value (displayIntervalCfg s)) minutes)) (Finite 0.0001)
      then (new_result\<lparr>status := ''ok''\<rparr>, s)
      else (new_result\<lparr>status := ''ok''\<rparr>,
            savePersistent (s\<lparr>displayIntervalCfg := \<lparr>current_value = minutes,
              last_changed_unix = t, last_changed_iso = iso8601FromTime p t,
              last_changed_source = ''Cloud/UI''\<rparr>\<rparr>)))"

definition SetServerInterval :: "platform \<Rightarrow> time_t \<Rightarrow> float \<Rightarrow> state \<Rightarrow> ActionResult \<times> state" where
  "SetServerInterval p t minutes s =
     (if flt minutes (Finite 0.1) \<or> fgt minutes (Finite 60.0)
      then (new_result\<lparr>status := ''error'', error_reason := ''out_of_range''\<rparr>, s)
      else if flt (fabs (fsub (current_value (serverIntervalCfg s)) minutes)) (Finite 0.0001)
      then (new_result\<lparr>status := ''ok''\<rparr>, s)
      else (new_result\<lparr>status := ''ok''\<rparr>,
            savePersistent (s\<lparr>serverIntervalCfg := \<lparr>current_value = minutes,
              last_changed_unix = t, last_changed_iso = iso8601FromTime p t,
              last_changed_source = ''Cloud/UI''\<rparr>\<rparr>)))"

section \<open>Standard setup\<close>

text \<open>\<^verbatim>\<open>setup\<close>, named \<open>setup_fw\<close> here; \<open>t1\<close> and \<open>t2\<close> are the clock readings of the load.\<close>

definition setup_fw :: "platform \<Rightarrow> time_t \<Rightarrow> time_t \<Rightarrow> state \<Rightarrow> state" where
  "setup_fw p t1 t2 s =
     (let s1 = loadPersistent p t1 t2 s;
          per = (persistent s1)\<lparr>boot_count := boot_count (persistent s1) + 1\<rparr>
      in s1\<lparr>persistent := per, eeprom := per, eeprom_puts := Suc (eeprom_puts s1)\<rparr>)"

section \<open>Transmission\<close>

text \<open>
  The string operations of the platform's \<^verbatim>\<open>String\<close> class that the send routine
  uses. \<^verbatim>\<open>startsWith\<close> compares the first characters; \<^verbatim>\<open>substring(left, right)\<close>
  swaps its bounds when they are out of order, is empty when \<open>left\<close> is beyond the
  end, and cuts \<open>right\<close> down to the length; \<^verbatim>\<open>toInt\<close> is C's \<^verbatim>\<open>atol\<close>: leading
  white space, an optional sign, then decimal digits up to the first other character
  (0 when there is none).
\<close>

definition startsWith :: "string \<Rightarrow> string \<Rightarrow> bool" where
  "startsWith s pre = (length pre \<le> length s \<and> take (length pre) s = pre)"

definition substring :: "string \<Rightarrow> nat \<Rightarrow> nat \<Rightarrow> string" where
  "substring s left right =
     (let l = (if left > right then right else left);
          r = (if left > right then left else right)
      in if l > length s then []
         else take ((if r > length s then length s else r) - l) (drop l s))"

definition isspace :: "char \<Rightarrow> bool" where
  "isspace c = (of_char c = (32::nat) \<or> ((9::nat) \<le> of_char c \<and> of_char c \<le> (13::nat)))"

definition isdigit :: "char \<Rightarrow> bool" where
  "isdigit c = ((48::nat) \<le> of_char c \<and> of_char c \<le> (57::nat))"

definition digits_value :: "string \<Rightarrow> int" where
  "digits_value ds = foldl (\<lambda>a c. a * 10 + (of_char c - 48)) 0 ds"

definition atol :: "string \<Rightarrow> int" where
  "atol s =
     (case dropWhile isspace s of
        [] \<Rightarrow> 0
      | c # cs \<Rightarrow>
          if c = CHR ''-'' then - digits_value (takeWhile isdigit cs)
          else if c = CHR ''+'' then digits_value (takeWhile isdigit cs)
          else digits_value (takeWhile isdigit (c # cs)))"

definition toInt :: "string \<Rightarrow> int" where
  "toInt s = atol s"

text \<open>
  What the network does in one exchange: the connection is refused, or it is made and
  \<^verbatim>\<open>readStringUntil('\n')\<close> returns a line after the bounded wait (the empty line
  when nothing arrived in time).
\<close>

datatype net_outcome = ConnectFailed | Answered string

text \<open>
  \<^verbatim>\<open>sendReadingsToServer\<close> returns its result and the out-parameter \<^verbatim>\<open>httpStatus\<close>.
  The text of the request is not modelled; the reading it is built from is recorded
  in \<open>sent\<close>.
\<close>

definition sendReadingsToServer :: "net_outcome \<Rightarrow> ReadingPayload \<Rightarrow> state \<Rightarrow> bool \<times> int \<times> state" where
  "sendReadingsToServer net r s =
     (let s1 = s\<lparr>sent := sent s @ [r]\<rparr>
      in case net of
           ConnectFailed \<Rightarrow> (False, 0, s1)
         | Answered statusLine \<Rightarrow>
             (let httpStatus = (if startsWith statusLine ''HTTP/1.1 ''
                                then toInt (substring statusLine 9 12) else 0)
              in (httpStatus \<ge> 200 \<and> httpStatus < 300, httpStatus, s1)))"

text \<open>\<^verbatim>\<open>PushNow\<close> of the complete variant: \<open>t\<close> is the clock reading of its sample.\<close>

definition PushNow :: "platform \<Rightarrow> time_t \<Rightarrow> net_outcome \<Rightarrow> state \<Rightarrow> ActionResult \<times> state" where
  "PushNow p t net s =
     (let (reading, s1) = GetReadings p t s;
          (success, httpStatus, s2) = sendReadingsToServer net reading s1
      in if success
         then (new_result\<lparr>status := ''ok'', http_status := Some httpStatus\<rparr>,
               s2\<lparr>sendSuccessCount := sendSuccessCount s2 + 1,
                  logged := logged s2 @ [(LogInfo, ''PushNow succeeded (%d)'', httpStatus)],
                  published := published s2 @ [(''sensor/push'', ''manual_ok'')]\<rparr>)
         else (new_result\<lparr>status := ''error'', http_status := Some httpStatus,
                           error_reason := ''send_failed''\<rparr>,
               s2\<lparr>sendFailCount := sendFailCount s2 + 1,
                  logged := logged s2 @ [(LogError, ''PushNow failed (%d)'', httpStatus)],
                  published := published s2 @ [(''sensor/push'', ''manual_error'')]\<rparr>))"

text \<open>\<^verbatim>\<open>PushNow\<close> of the template: the send is a constant.\<close>

definition PushNow_template :: "state \<Rightarrow> ActionResult \<times> state" where
  "PushNow_template s =
     (let success = True
      in if success
         then (new_result\<lparr>status := ''ok'', http_status := Some 200\<rparr>,
               s\<lparr>sendSuccessCount := sendSuccessCount s + 1\<rparr>)
         else (new_result\<lparr>status := ''error'', http_status := Some 0,
                           error_reason := ''send_failed''\<rparr>,
               s\<lparr>sendFailCount := sendFailCount s + 1\<rparr>))"

section \<open>The scheduler loop\<close>

text \<open>
  The conversion of a \<^verbatim>\<open>float\<close> to \<^verbatim>\<open>time_t\<close> drops the fraction of a finite value.
  The language defines no result for an infinity or NaN: \<open>None\<close>.
\<close>

definition to_time_t :: "float \<Rightarrow> time_t option" where
  "to_time_t a =
     (case a of
        Finite x \<Rightarrow> Some (if x \<ge> 0 then \<lfloor>x\<rfloor> else \<lceil>x\<rceil>)
      | PInf \<Rightarrow> None | NInf \<Rightarrow> None | NaN \<Rightarrow> None)"

text \<open>
  One tick of \<^verbatim>\<open>loop\<close> in the complete variant: \<open>now\<close> is the clock reading of the
  tick, \<open>t\<close> the one of the sample. The interval is multiplied by 60 as a \<^verbatim>\<open>float\<close>
  and then converted; where the conversion has no result the tick has none.
\<close>

definition loop :: "platform \<Rightarrow> time_t \<Rightarrow> time_t \<Rightarrow> net_outcome \<Rightarrow> state \<Rightarrow> state option" where
  "loop p now t net s =
     (case to_time_t (fmul (current_value (serverIntervalCfg s)) (Finite 60)) of
        None \<Rightarrow> None
      | Some seconds \<Rightarrow>
          Some (if now - lastServerPush s \<ge> seconds
            then (let s0 = s\<lparr>lastServerPush := now\<rparr>;
                      (reading, s1) = GetReadings p t s0;
                      (success, httpStatus, s2) = sendReadingsToServer net reading s1
                  in if success
                     then s2\<lparr>sendSuccessCount := sendSuccessCount s2 + 1,
                             logged := logged s2 @ [(LogInfo, ''Scheduled push succeeded (%d)'', httpStatus)],
                             published := published s2 @ [(''sensor/push'', ''scheduled_ok'')]\<rparr>
                     else s2\<lparr>sendFailCount := sendFailCount s2 + 1,
                             logged := logged s2 @ [(LogError, ''Scheduled push failed (%d)'', httpStatus)],
                             published := published s2 @ [(''sensor/push'', ''scheduled_error'')]\<rparr>)
            else s))"

text \<open>\<^verbatim>\<open>loop\<close> of the template is a placeholder with an empty body.\<close>

definition loop_template :: "state \<Rightarrow> state" where
  "loop_template s = s"

section \<open>Commands that take no sample\<close>

text \<open>
  The commands of the API other than \<^verbatim>\<open>GetReadings\<close> and \<^verbatim>\<open>PushNow\<close>, and runs of
  them, as they may come between two samples.
\<close>

datatype command =
    CmdGetConfig
  | CmdSetDisplayInterval time_t float
  | CmdSetServerInterval time_t float

fun run_command :: "platform \<Rightarrow> command \<Rightarrow> state \<Rightarrow> state" where
  "run_command p CmdGetConfig s = s"
| "run_command p (CmdSetDisplayInterval t v) s = snd (SetDisplayInterval p t v s)"
| "run_command p (CmdSetServerInterval t v) s = snd (SetServerInterval p t v s)"

fun run_commands :: "platform \<Rightarrow> command list \<Rightarrow> state \<Rightarrow> state" where
  "run_commands p [] s = s"
| "run_commands p (c # cs) s = run_commands p cs (run_command p c s)"

text \<open>A platform and a moment for worked examples.\<close>

definition example_platform :: platform where
  "example_platform = \<lparr>deviceID = ''e00fce68'', version = ''5.8.0'',
     year = (\<lambda>_. 2024), month = (\<lambda>_. 5), day = (\<lambda>_. 17),
     hour = (\<lambda>_. 9), minute = (\<lambda>_. 30), second = (\<lambda>_. 0)\<rparr>"

definition example_state :: state where
  "example_state = setup_fw example_platform 0 0
     (boot_state \<lparr>display_interval = Finite 0, server_interval = Finite 0, boot_count = 0\<rparr>)"

text \<open>
  The record that storage holds when every byte of it reads \<^verbatim>\<open>0xFF\<close>, as bytes that
  were never written do.
\<close>

definition erased_record :: PersistentConfig where
  "erased_record = \<lparr>display_interval = float_of_bits 0xFFFFFFFF,
     server_interval = float_of_bits 0xFFFFFFFF, boot_count = 0xFFFFFFFF\<rparr>"

text \<open>The state after the start of the program on storage that holds \<open>rom\<close>.\<close>

definition first_boot :: "platform \<Rightarrow> time_t \<Rightarrow> time_t \<Rightarrow> PersistentConfig \<Rightarrow> state" where
  "first_boot p t1 t2 rom = setup_fw p t1 t2 (boot_state rom)"

text \<open>The \<^verbatim>\<open>float\<close> nearest to 0.35, with the bits \<^verbatim>\<open>0x3EB33333\<close>.\<close>

definition float_035 :: float where
  "float_035 = Finite (11744051 / 33554432)"

text \<open>A run of samples, one for each clock reading.\<close>

fun take_samples :: "platform \<Rightarrow> time_t list \<Rightarrow> state \<Rightarrow> state" where
  "take_samples p [] s = s"
| "take_samples p (t # ts) s = take_samples p ts (snd (GetReadings p t s))"


section \<open>Single-precision facts\<close>

lemma float_of_bits_erased: "float_of_bits 0xFFFFFFFF = NaN"
  by (simp add: float_of_bits_def)

lemma float_of_bits_examples:
  "float_of_bits 0x3EB33333 = float_035"
  "float_of_bits 0x3DCCCCCD = Finite (13421773 / 134217728)"
  "float_of_bits 0x38D1B717 = Finite (13743895 / 137438953472)"
  "float_of_bits 0 = Finite 0"
  by (simp_all add: float_of_bits_def pow2_def float_035_def)

text \<open>
  Between 0.0625 and 0.125 the \<^verbatim>\<open>float\<close>s are the multiples of \<open>2 ^ -27\<close>: none is at
  least 0.1 and below \<^verbatim>\<open>0.1f\<close>. No multiple of \<open>2 ^ -27\<close> is at least \<^verbatim>\<open>0.0001f\<close> and
  below 0.0001.
\<close>

lemma float_01_gap:
  fixes n :: int
  shows "\<not> (1 / 10 \<le> real_of_int n / 134217728 \<and> real_of_int n / 134217728 < 13421773 / 134217728)"
proof
  assume a: "1 / 10 \<le> real_of_int n / 134217728 \<and> real_of_int n / 134217728 < 13421773 / 134217728"
  then have "real_of_int n < 13421773" by simp
  then have u: "n \<le> 13421772" by linarith
  from a have "134217728 \<le> real_of_int n * 10" by (simp add: field_simps)
  then have "134217728 \<le> n * 10" by linarith
  with u show False by linarith
qed

lemma float_00001_gap:
  fixes n :: int
  shows "\<not> (13743895 / 137438953472 \<le> real_of_int n / 134217728 \<and> real_of_int n / 134217728 < 1 / 10000)"
proof
  assume a: "13743895 / 137438953472 \<le> real_of_int n / 134217728 \<and> real_of_int n / 134217728 < 1 / 10000"
  then have "real_of_int n * 10000 < 134217728" by (simp add: field_simps)
  then have "n * 10000 < 134217728" by linarith
  then have u: "n \<le> 13421" by linarith
  from a have "13743895 \<le> real_of_int n * 1024" by (simp add: field_simps)
  then have "13743895 \<le> n * 1024" by linarith
  with u show False by linarith
qed

lemma flt_Finite [simp]:
  "flt (Finite x) (Finite y) = (x < y)"
  "flt NaN b = False" "flt a NaN = False"
  "flt PInf b = False" "flt a NInf = False"
  "flt NInf (Finite y) = True" "flt (Finite x) PInf = True" "flt NInf PInf = True"
  by (simp_all add: flt_def split: float.splits)

lemma fgt_Finite [simp]:
  "fgt (Finite x) (Finite y) = (y < x)"
  "fgt NaN b = False" "fgt a NaN = False"
  "fgt NInf b = False" "fgt a PInf = False"
  "fgt PInf (Finite y) = True" "fgt (Finite x) NInf = True" "fgt PInf NInf = True"
  by (simp_all add: fgt_def)

text \<open>The duplicate test of the setters: true exactly for two finite values that close.\<close>

lemma duplicate_test:
  "flt (fabs (fsub c (Finite x))) (Finite e) = (\<exists>y. c = Finite y \<and> \<bar>y - x\<bar> < e)"
  by (cases c) (simp_all add: fsub_def fabs_def)

text \<open>The range test of the setters and of the load: true for NaN on neither side.\<close>

lemma range_test:
  "(flt v (Finite 0.1) \<or> fgt v (Finite 60)) =
     (v = NInf \<or> v = PInf \<or> (\<exists>x. v = Finite x \<and> (x < 0.1 \<or> x > 60)))"
  by (cases v) simp_all

section \<open>What each function leaves alone\<close>

lemma savePersistent_frame:
  "displayIntervalCfg (savePersistent s) = displayIntervalCfg s"
  "serverIntervalCfg (savePersistent s) = serverIntervalCfg s"
  "boot_count (persistent (savePersistent s)) = boot_count (persistent s)"
  "sendSuccessCount (savePersistent s) = sendSuccessCount s"
  "sendFailCount (savePersistent s) = sendFailCount s"
  "sampleCounter (savePersistent s) = sampleCounter s"
  "lastServerPush (savePersistent s) = lastServerPush s"
  "eeprom_puts (savePersistent s) = Suc (eeprom_puts s)"
  by (simp_all add: savePersistent_def Let_def)

lemma savePersistent_stores:
  "eeprom (savePersistent s) = persistent (savePersistent s)"
  "display_interval (persistent (savePersistent s)) = current_value (displayIntervalCfg s)"
  "server_interval (persistent (savePersistent s)) = current_value (serverIntervalCfg s)"
  by (simp_all add: savePersistent_def Let_def)

lemma example_iso: "iso8601FromTime example_platform t = ''2024-05-17T09:30:00Z''"
  by (simp add: iso8601FromTime_def example_platform_def fmt_0d_def zero_pad_def dec.simps
      char_of_def bit_0)

lemma example_state_eq:
  "example_state = \<lparr>eeprom = \<lparr>display_interval = Finite 1, server_interval = Finite 5, boot_count = 1\<rparr>,
     eeprom_puts = 1,
     persistent = \<lparr>display_interval = Finite 1, server_interval = Finite 5, boot_count = 1\<rparr>,
     displayIntervalCfg = \<lparr>current_value = Finite 1, last_changed_unix = 0,
       last_changed_iso = ''2024-05-17T09:30:00Z'', last_changed_source = ''EEPROM''\<rparr>,
     serverIntervalCfg = \<lparr>current_value = Finite 5, last_changed_unix = 0,
       last_changed_iso = ''2024-05-17T09:30:00Z'', last_changed_source = ''EEPROM''\<rparr>,
     sendSuccessCount = 0, sendFailCount = 0, sampleCounter = 0, lastServerPush = 0,
     sent = [], published = [], logged = []\<rparr>"
  by (simp add: example_state_def setup_fw_def loadPersistent_def boot_state_def Let_def
      example_iso)

lemma erased_record_eq:
  "erased_record = \<lparr>display_interval = NaN, server_interval = NaN, boot_count = 0xFFFFFFFF\<rparr>"
  by (simp add: erased_record_def float_of_bits_erased)

section \<open>The configuration store\<close>

text \<open>
  What \<^verbatim>\<open>loadPersistent\<close> does with a stored interval: an infinity or a finite value
  below 0.1 or above 60 is replaced by the default (1 for the display interval, 5 for
  the server interval), and a finite value within \<open>[0.1, 60]\<close> is kept. The boot count
  is kept.
\<close>

lemma loadPersistent_replaces:
  "flt (display_interval (eeprom s)) (Finite 0.1) \<or> fgt (display_interval (eeprom s)) (Finite 60)
     \<Longrightarrow> display_interval (persistent (loadPersistent p t1 t2 s)) = Finite 1"
  "flt (server_interval (eeprom s)) (Finite 0.1) \<or> fgt (server_interval (eeprom s)) (Finite 60)
     \<Longrightarrow> server_interval (persistent (loadPersistent p t1 t2 s)) = Finite 5"
  "display_interval (eeprom s) = Finite x \<Longrightarrow> 0.1 \<le> x \<Longrightarrow> x \<le> 60
     \<Longrightarrow> display_interval (persistent (loadPersistent p t1 t2 s)) = Finite x"
  "server_interval (eeprom s) = Finite y \<Longrightarrow> 0.1 \<le> y \<Longrightarrow> y \<le> 60
     \<Longrightarrow> server_interval (persistent (loadPersistent p t1 t2 s)) = Finite y"
  "boot_count (persistent (loadPersistent p t1 t2 s)) = boot_count (eeprom s)"
  by (auto simp add: loadPersistent_def Let_def)

lemma loadPersistent_examples:
  "persistent (loadPersistent p t1 t2
     (boot_state \<lparr>display_interval = Finite 0, server_interval = Finite 999, boot_count = 7\<rparr>)) =
     \<lparr>display_interval = Finite 1, server_interval = Finite 5, boot_count = 7\<rparr>"
  "persistent (loadPersistent p t1 t2
     (boot_state \<lparr>display_interval = Finite 2.5, server_interval = Finite 10, boot_count = 7\<rparr>)) =
     \<lparr>display_interval = Finite 2.5, server_interval = Finite 10, boot_count = 7\<rparr>"
  by (simp_all add: loadPersistent_def Let_def boot_state_def)

text \<open>The loaded values and their provenance, as the parameters show them.\<close>

lemma loadPersistent_params:
  "displayIntervalCfg (loadPersistent p t1 t2 s) =
     \<lparr>current_value = display_interval (persistent (loadPersistent p t1 t2 s)),
      last_changed_unix = t1, last_changed_iso = iso8601FromTime p t1,
      last_changed_source = ''EEPROM''\<rparr>"
  "serverIntervalCfg (loadPersistent p t1 t2 s) =
     \<lparr>current_value = server_interval (persistent (loadPersistent p t1 t2 s)),
      last_changed_unix = t2, last_changed_iso = iso8601FromTime p t2,
      last_changed_source = ''EEPROM''\<rparr>"
  by (simp_all add: loadPersistent_def Let_def)

text \<open>
  C8: \<^verbatim>\<open>loadPersistent\<close> does not replace every stored interval that is outside
  \<open>[0.1, 60]\<close>. Both comparisons of its range test are false for NaN, so a stored NaN
  is kept as the interval and shown as the parameter's current value, for the display
  interval and for the server interval alike.
\<close>

theorem loadPersistent_keeps_nan:
  "(display_interval (eeprom s) = NaN \<longrightarrow>
      display_interval (persistent (loadPersistent p t1 t2 s)) = NaN \<and>
      current_value (displayIntervalCfg (loadPersistent p t1 t2 s)) = NaN) \<and>
   (server_interval (eeprom s) = NaN \<longrightarrow>
      server_interval (persistent (loadPersistent p t1 t2 s)) = NaN \<and>
      current_value (serverIntervalCfg (loadPersistent p t1 t2 s)) = NaN)"
  by (auto simp add: loadPersistent_def Let_def)

theorem loadPersistent_keeps_nan_witness:
  "persistent (loadPersistent example_platform 3 4 (boot_state erased_record)) = erased_record \<and>
   current_value (displayIntervalCfg (loadPersistent example_platform 3 4
     (boot_state erased_record))) = float_of_bits 0xFFFFFFFF \<and>
   current_value (serverIntervalCfg (loadPersistent example_platform 3 4
     (boot_state erased_record))) = NaN"
  using loadPersistent_keeps_nan [of "boot_state erased_record" example_platform 3 4]
  by (simp add: boot_state_def erased_record_eq float_of_bits_erased loadPersistent_def Let_def)

text \<open>
  The program keeps no mark of whether a record was ever stored: the boot count after
  \<^verbatim>\<open>setup\<close> is the stored count plus one, whatever was stored.
\<close>

lemma setup_fw_boot_count:
  "boot_count (persistent (setup_fw p t1 t2 s)) = boot_count (eeprom s) + 1"
  "eeprom (setup_fw p t1 t2 s) = persistent (setup_fw p t1 t2 s)"
  "eeprom_puts (setup_fw p t1 t2 s) = Suc (eeprom_puts s)"
  by (simp_all add: setup_fw_def loadPersistent_def Let_def)

lemma setup_fw_load:
  "display_interval (persistent (setup_fw p t1 t2 s)) =
     display_interval (persistent (loadPersistent p t1 t2 s))"
  "server_interval (persistent (setup_fw p t1 t2 s)) =
     server_interval (persistent (loadPersistent p t1 t2 s))"
  "displayIntervalCfg (setup_fw p t1 t2 s) = displayIntervalCfg (loadPersistent p t1 t2 s)"
  "serverIntervalCfg (setup_fw p t1 t2 s) = serverIntervalCfg (loadPersistent p t1 t2 s)"
  "sendSuccessCount (setup_fw p t1 t2 s) = sendSuccessCount s"
  "sendFailCount (setup_fw p t1 t2 s) = sendFailCount s"
  by (simp_all add: setup_fw_def loadPersistent_def Let_def)

text \<open>
  Storage that was never written reads \<^verbatim>\<open>0xFF\<close> in every byte: a boot count of
  \<open>2 ^ 32 - 1\<close> and two NaN intervals. The first boot on it ends with a boot count of 0
  and with NaN for both intervals.
\<close>

theorem first_boot_erased_counterexample:
  "boot_count_cfg (GetConfig example_platform (first_boot example_platform 0 0 erased_record)) = 0 \<and>
   current_value (display_interval_cfg
     (GetConfig example_platform (first_boot example_platform 0 0 erased_record))) = NaN \<and>
   current_value (server_interval_cfg
     (GetConfig example_platform (first_boot example_platform 0 0 erased_record))) = NaN"
  by (simp add: first_boot_def GetConfig_def setup_fw_def loadPersistent_def Let_def boot_state_def
      erased_record_eq)

text \<open>
  C2, amended: on every boot the boot count after \<^verbatim>\<open>setup\<close> is the stored count plus
  one modulo \<open>2 ^ 32\<close>, in memory and in storage, both send counters are 0, a stored
  interval below 0.1 or above 60 is replaced by its default and one within \<open>[0.1, 60]\<close>
  is kept, and \<^verbatim>\<open>GetConfig\<close> reports exactly these. So on a boot whose storage reads
  back a boot count of 0 and two intervals below 0.1 or above 60, as zero-filled storage
  does, the configuration is the defaults (display interval 1, server interval 5), the
  boot count is exactly 1, the counters are 0 and the first \<^verbatim>\<open>GetConfig\<close> shows a boot
  count of 1.
\<close>

theorem first_boot_defaults:
  "boot_count (persistent (first_boot p t1 t2 rom)) = boot_count rom + 1 \<and>
   eeprom (first_boot p t1 t2 rom) = persistent (first_boot p t1 t2 rom) \<and>
   eeprom_puts (first_boot p t1 t2 rom) = 1 \<and>
   sendSuccessCount (first_boot p t1 t2 rom) = 0 \<and>
   sendFailCount (first_boot p t1 t2 rom) = 0 \<and>
   GetConfig p (first_boot p t1 t2 rom) =
     \<lparr>status_cfg = ''ok'', device_id_cfg = deviceID p, firmware_version_cfg = version p,
      boot_count_cfg = boot_count rom + 1, send_success_count = 0, send_fail_count = 0,
      display_interval_cfg = displayIntervalCfg (first_boot p t1 t2 rom),
      server_interval_cfg = serverIntervalCfg (first_boot p t1 t2 rom)\<rparr> \<and>
   (flt (display_interval rom) (Finite 0.1) \<or> fgt (display_interval rom) (Finite 60) \<longrightarrow>
      display_interval (persistent (first_boot p t1 t2 rom)) = Finite 1 \<and>
      displayIntervalCfg (first_boot p t1 t2 rom) =
        \<lparr>current_value = Finite 1, last_changed_unix = t1,
         last_changed_iso = iso8601FromTime p t1, last_changed_source = ''EEPROM''\<rparr>) \<and>
   (flt (server_interval rom) (Finite 0.1) \<or> fgt (server_interval rom) (Finite 60) \<longrightarrow>
      server_interval (persistent (first_boot p t1 t2 rom)) = Finite 5 \<and>
      serverIntervalCfg (first_boot p t1 t2 rom) =
        \<lparr>current_value = Finite 5, last_changed_unix = t2,
         last_changed_iso = iso8601FromTime p t2, last_changed_source = ''EEPROM''\<rparr>) \<and>
   (display_interval rom = Finite x \<and> 0.1 \<le> x \<and> x \<le> 60 \<longrightarrow>
      display_interval (persistent (first_boot p t1 t2 rom)) = Finite x \<and>
      current_value (displayIntervalCfg (first_boot p t1 t2 rom)) = Finite x) \<and>
   (server_interval rom = Finite y \<and> 0.1 \<le> y \<and> y \<le> 60 \<longrightarrow>
      server_interval (persistent (first_boot p t1 t2 rom)) = Finite y \<and>
      current_value (serverIntervalCfg (first_boot p t1 t2 rom)) = Finite y) \<and>
   (boot_count rom = 0 \<and>
    (flt (display_interval rom) (Finite 0.1) \<or> fgt (display_interval rom) (Finite 60)) \<and>
    (flt (server_interval rom) (Finite 0.1) \<or> fgt (server_interval rom) (Finite 60)) \<longrightarrow>
      persistent (first_boot p t1 t2 rom) =
        \<lparr>display_interval = Finite 1, server_interval = Finite 5, boot_count = 1\<rparr> \<and>
      boot_count_cfg (GetConfig p (first_boot p t1 t2 rom)) = 1 \<and>
      current_value (display_interval_cfg (GetConfig p (first_boot p t1 t2 rom))) = Finite 1 \<and>
      current_value (server_interval_cfg (GetConfig p (first_boot p t1 t2 rom))) = Finite 5)"
proof -
  let ?S = "first_boot p t1 t2 rom"
  have rom: "eeprom (boot_state rom) = rom" by (simp add: boot_state_def)
  have a: "boot_count (persistent ?S) = boot_count rom + 1"
    "eeprom ?S = persistent ?S" "eeprom_puts ?S = 1"
    "sendSuccessCount ?S = 0" "sendFailCount ?S = 0"
    by (simp_all add: first_boot_def setup_fw_boot_count setup_fw_load rom)
      (simp_all add: boot_state_def)
  have g: "GetConfig p ?S =
     \<lparr>status_cfg = ''ok'', device_id_cfg = deviceID p, firmware_version_cfg = version p,
      boot_count_cfg = boot_count rom + 1, send_success_count = 0, send_fail_count = 0,
      display_interval_cfg = displayIntervalCfg ?S, server_interval_cfg = serverIntervalCfg ?S\<rparr>"
    by (simp add: GetConfig_def a)
  have d: "flt (display_interval rom) (Finite 0.1) \<or> fgt (display_interval rom) (Finite 60) \<longrightarrow>
      display_interval (persistent ?S) = Finite 1 \<and>
      displayIntervalCfg ?S = \<lparr>current_value = Finite 1, last_changed_unix = t1,
         last_changed_iso = iso8601FromTime p t1, last_changed_source = ''EEPROM''\<rparr>"
    using loadPersistent_replaces(1) [of "boot_state rom" p t1 t2]
    by (simp add: first_boot_def setup_fw_load loadPersistent_params rom)
  have sv: "flt (server_interval rom) (Finite 0.1) \<or> fgt (server_interval rom) (Finite 60) \<longrightarrow>
      server_interval (persistent ?S) = Finite 5 \<and>
      serverIntervalCfg ?S = \<lparr>current_value = Finite 5, last_changed_unix = t2,
         last_changed_iso = iso8601FromTime p t2, last_changed_source = ''EEPROM''\<rparr>"
    using loadPersistent_replaces(2) [of "boot_state rom" p t1 t2]
    by (simp add: first_boot_def setup_fw_load loadPersistent_params rom)
  have dk: "display_interval rom = Finite x \<and> 0.1 \<le> x \<and> x \<le> 60 \<longrightarrow>
      display_interval (persistent ?S) = Finite x \<and> current_value (displayIntervalCfg ?S) = Finite x"
    using loadPersistent_replaces(3) [of "boot_state rom" x p t1 t2]
    by (simp add: first_boot_def setup_fw_load loadPersistent_params rom)
  have sk: "server_interval rom = Finite y \<and> 0.1 \<le> y \<and> y \<le> 60 \<longrightarrow>
      server_interval (persistent ?S) = Finite y \<and> current_value (serverIntervalCfg ?S) = Finite y"
    using loadPersistent_replaces(4) [of "boot_state rom" y p t1 t2]
    by (simp add: first_boot_def setup_fw_load loadPersistent_params rom)
  have f: "boot_count rom = 0 \<and>
    (flt (display_interval rom) (Finite 0.1) \<or> fgt (display_interval rom) (Finite 60)) \<and>
    (flt (server_interval rom) (Finite 0.1) \<or> fgt (server_interval rom) (Finite 60)) \<longrightarrow>
      persistent ?S = \<lparr>display_interval = Finite 1, server_interval = Finite 5, boot_count = 1\<rparr> \<and>
      boot_count_cfg (GetConfig p ?S) = 1 \<and>
      current_value (display_interval_cfg (GetConfig p ?S)) = Finite 1 \<and>
      current_value (server_interval_cfg (GetConfig p ?S)) = Finite 5"
  proof
    assume h: "boot_count rom = 0 \<and>
      (flt (display_interval rom) (Finite 0.1) \<or> fgt (display_interval rom) (Finite 60)) \<and>
      (flt (server_interval rom) (Finite 0.1) \<or> fgt (server_interval rom) (Finite 60))"
    have "persistent ?S = \<lparr>display_interval = display_interval (persistent ?S),
        server_interval = server_interval (persistent ?S), boot_count = boot_count (persistent ?S)\<rparr>"
      by simp
    then have "persistent ?S = \<lparr>display_interval = Finite 1, server_interval = Finite 5, boot_count = 1\<rparr>"
      using h d sv a(1) by simp
    moreover have "boot_count_cfg (GetConfig p ?S) = 1" using h g by simp
    moreover have "current_value (display_interval_cfg (GetConfig p ?S)) = Finite 1"
      using h d g by simp
    moreover have "current_value (server_interval_cfg (GetConfig p ?S)) = Finite 5"
      using h sv g by simp
    ultimately show "persistent ?S = \<lparr>display_interval = Finite 1, server_interval = Finite 5, boot_count = 1\<rparr> \<and>
      boot_count_cfg (GetConfig p ?S) = 1 \<and>
      current_value (display_interval_cfg (GetConfig p ?S)) = Finite 1 \<and>
      current_value (server_interval_cfg (GetConfig p ?S)) = Finite 5" by blast
  qed
  from a g d sv dk sk f show ?thesis by blast
qed

theorem first_boot_defaults_witness:
  "boot_count_cfg (GetConfig example_platform example_state) = 1 \<and>
   persistent example_state =
     \<lparr>display_interval = Finite 1, server_interval = Finite 5, boot_count = 1\<rparr> \<and>
   current_value (display_interval_cfg (GetConfig example_platform example_state)) = Finite 1 \<and>
   current_value (server_interval_cfg (GetConfig example_platform example_state)) = Finite 5 \<and>
   send_success_count (GetConfig example_platform example_state) = 0 \<and>
   send_fail_count (GetConfig example_platform example_state) = 0 \<and>
   persistent (first_boot example_platform 0 0
     \<lparr>display_interval = Finite 2.5, server_interval = Finite 10, boot_count = 41\<rparr>) =
     \<lparr>display_interval = Finite 2.5, server_interval = Finite 10, boot_count = 42\<rparr>"
proof -
  have e: "example_state = first_boot example_platform 0 0
      \<lparr>display_interval = Finite 0, server_interval = Finite 0, boot_count = 0\<rparr>"
    by (simp add: example_state_def first_boot_def)
  have r: "persistent (first_boot example_platform 0 0
       \<lparr>display_interval = Finite 2.5, server_interval = Finite 10, boot_count = 41\<rparr>) =
     \<lparr>display_interval = display_interval (persistent (first_boot example_platform 0 0
         \<lparr>display_interval = Finite 2.5, server_interval = Finite 10, boot_count = 41\<rparr>)),
      server_interval = server_interval (persistent (first_boot example_platform 0 0
         \<lparr>display_interval = Finite 2.5, server_interval = Finite 10, boot_count = 41\<rparr>)),
      boot_count = boot_count (persistent (first_boot example_platform 0 0
         \<lparr>display_interval = Finite 2.5, server_interval = Finite 10, boot_count = 41\<rparr>))\<rparr>"
    by simp
  show ?thesis
    unfolding e
    using first_boot_defaults [of example_platform 0 0
        "\<lparr>display_interval = Finite 0, server_interval = Finite 0, boot_count = 0\<rparr>" 0 0]
      first_boot_defaults [of example_platform 0 0
        "\<lparr>display_interval = Finite 2.5, server_interval = Finite 10, boot_count = 41\<rparr>" "2.5" 10]
      r
    by simp
qed

section \<open>The interval setters\<close>

text \<open>
  For every value that compares below 0.1 or above 60 (a finite value outside
  \<open>[0.1, 60]\<close> or an infinity), both setters return status \<open>error\<close> with reason
  \<open>out_of_range\<close> and return the state as it was.
\<close>

lemma setters_reject_out_of_range:
  assumes "flt v (Finite 0.1) \<or> fgt v (Finite 60)"
  shows "SetDisplayInterval p t v s =
           (\<lparr>status = ''error'', error_reason = ''out_of_range'', http_status = None\<rparr>, s)"
    and "SetServerInterval p t v s =
           (\<lparr>status = ''error'', error_reason = ''out_of_range'', http_status = None\<rparr>, s)"
  using assms by (simp_all add: SetDisplayInterval_def SetServerInterval_def new_result_def)

lemma setters_reject_examples:
  "SetDisplayInterval example_platform 9 (Finite 0.05) example_state =
     (\<lparr>status = ''error'', error_reason = ''out_of_range'', http_status = None\<rparr>, example_state)"
  "SetServerInterval example_platform 9 (Finite 60.5) example_state =
     (\<lparr>status = ''error'', error_reason = ''out_of_range'', http_status = None\<rparr>, example_state)"
  "SetServerInterval example_platform 9 PInf example_state =
     (\<lparr>status = ''error'', error_reason = ''out_of_range'', http_status = None\<rparr>, example_state)"
  by (simp_all add: setters_reject_out_of_range)

text \<open>
  C5: the setters do not refuse every value outside \<open>[0.1, 60]\<close>. NaN is not within
  \<open>[0.1, 60]\<close>, yet both comparisons of the range test are false for it, and so is the
  duplicate test: both setters return status \<open>ok\<close>, make NaN the current value with the
  clock reading of the call and the source \<open>Cloud/UI\<close>, and write it to storage, in
  every state.
\<close>

theorem setters_accept_nan:
  "SetDisplayInterval p t NaN s =
     (\<lparr>status = ''ok'', error_reason = [], http_status = None\<rparr>,
      savePersistent (s\<lparr>displayIntervalCfg := \<lparr>current_value = NaN, last_changed_unix = t,
        last_changed_iso = iso8601FromTime p t, last_changed_source = ''Cloud/UI''\<rparr>\<rparr>)) \<and>
   SetServerInterval p t NaN s =
     (\<lparr>status = ''ok'', error_reason = [], http_status = None\<rparr>,
      savePersistent (s\<lparr>serverIntervalCfg := \<lparr>current_value = NaN, last_changed_unix = t,
        last_changed_iso = iso8601FromTime p t, last_changed_source = ''Cloud/UI''\<rparr>\<rparr>)) \<and>
   current_value (displayIntervalCfg (snd (SetDisplayInterval p t NaN s))) = NaN \<and>
   display_interval (eeprom (snd (SetDisplayInterval p t NaN s))) = NaN \<and>
   eeprom_puts (snd (SetDisplayInterval p t NaN s)) = Suc (eeprom_puts s) \<and>
   current_value (serverIntervalCfg (snd (SetServerInterval p t NaN s))) = NaN \<and>
   server_interval (eeprom (snd (SetServerInterval p t NaN s))) = NaN \<and>
   eeprom_puts (snd (SetServerInterval p t NaN s)) = Suc (eeprom_puts s)"
  by (simp add: SetDisplayInterval_def SetServerInterval_def new_result_def fsub_def fabs_def
      savePersistent_frame savePersistent_stores split: float.splits)

theorem setters_accept_nan_witness:
  "status (fst (SetDisplayInterval example_platform 9 NaN example_state)) = ''ok'' \<and>
   displayIntervalCfg (snd (SetDisplayInterval example_platform 9 NaN example_state)) =
     \<lparr>current_value = NaN, last_changed_unix = 9, last_changed_iso = ''2024-05-17T09:30:00Z'',
      last_changed_source = ''Cloud/UI''\<rparr> \<and>
   eeprom (snd (SetDisplayInterval example_platform 9 NaN example_state)) =
     \<lparr>display_interval = NaN, server_interval = Finite 5, boot_count = 1\<rparr> \<and>
   eeprom_puts (snd (SetDisplayInterval example_platform 9 NaN example_state)) = 2"
  using setters_accept_nan [of example_platform 9 example_state]
  by (simp add: example_state_eq example_iso savePersistent_def Let_def)

text \<open>
  The range check comes before the duplicate check. A new value just below 0.1 is
  within 0.0001 of a current value of 0.1 and is still refused: the state after a boot
  with stored intervals of 0.1, and the new value 0.09995.
\<close>

theorem duplicate_below_range_counterexample:
  "current_value (displayIntervalCfg (setup_fw example_platform 0 0
       (boot_state \<lparr>display_interval = Finite 0.1, server_interval = Finite 0.1, boot_count = 3\<rparr>)))
     = Finite 0.1 \<and>
   \<bar>(0.1 :: real) - 0.09995\<bar> < 0.0001 \<and>
   status (fst (SetDisplayInterval example_platform 1 (Finite 0.09995) (setup_fw example_platform 0 0
       (boot_state \<lparr>display_interval = Finite 0.1, server_interval = Finite 0.1, boot_count = 3\<rparr>))))
     = ''error'' \<and>
   current_value (serverIntervalCfg (setup_fw example_platform 0 0
       (boot_state \<lparr>display_interval = Finite 0.1, server_interval = Finite 0.1, boot_count = 3\<rparr>)))
     = Finite 0.1 \<and>
   status (fst (SetServerInterval example_platform 1 (Finite 0.09995) (setup_fw example_platform 0 0
       (boot_state \<lparr>display_interval = Finite 0.1, server_interval = Finite 0.1, boot_count = 3\<rparr>))))
     = ''error''"
  by (simp add: SetDisplayInterval_def SetServerInterval_def setup_fw_def loadPersistent_def
      boot_state_def new_result_def Let_def)

text \<open>
  C7, amended: for every new value within \<open>[0.1, 60]\<close> whose absolute difference from the
  parameter's current value is below 0.0001, the setter returns status \<open>ok\<close> and
  returns the state as it was: value, timestamp and source are unchanged and nothing
  is written to storage.
\<close>

theorem setters_duplicate_in_range:
  "(0.1 \<le> v \<and> v \<le> 60 \<and> current_value (displayIntervalCfg s) = Finite c \<and> \<bar>c - v\<bar> < 0.0001 \<longrightarrow>
      SetDisplayInterval p t (Finite v) s =
        (\<lparr>status = ''ok'', error_reason = [], http_status = None\<rparr>, s)) \<and>
   (0.1 \<le> v \<and> v \<le> 60 \<and> current_value (serverIntervalCfg s) = Finite c \<and> \<bar>c - v\<bar> < 0.0001 \<longrightarrow>
      SetServerInterval p t (Finite v) s =
        (\<lparr>status = ''ok'', error_reason = [], http_status = None\<rparr>, s))"
  by (simp add: SetDisplayInterval_def SetServerInterval_def new_result_def duplicate_test)

theorem setters_duplicate_in_range_witness:
  "SetDisplayInterval example_platform 9 (Finite 1.00005) example_state =
     (\<lparr>status = ''ok'', error_reason = [], http_status = None\<rparr>, example_state) \<and>
   SetServerInterval example_platform 9 (Finite 4.99995) example_state =
     (\<lparr>status = ''ok'', error_reason = [], http_status = None\<rparr>, example_state)"
  using setters_duplicate_in_range [of "1.00005" example_state 1 example_platform 9]
    setters_duplicate_in_range [of "4.99995" example_state 5 example_platform 9]
  by (simp add: example_state_eq)

text \<open>
  C6: for every value \<open>v\<close> within \<open>[0.1, 60]\<close> that is not within 0.0001 of the
  parameter's current value (a current value that is not finite is within 0.0001 of
  nothing), the setter returns status \<open>ok\<close>, and \<^verbatim>\<open>GetConfig\<close> on the state it leaves
  shows the parameter with value \<open>v\<close>, the clock reading of the call as its timestamp
  (as number and as text) and \<open>Cloud/UI\<close> as its source.
\<close>

theorem set_then_get:
  "(0.1 \<le> v \<and> v \<le> 60 \<and>
    (\<forall>c. current_value (displayIntervalCfg s) = Finite c \<longrightarrow> \<not> \<bar>c - v\<bar> < 0.0001) \<longrightarrow>
      status (fst (SetDisplayInterval p t (Finite v) s)) = ''ok'' \<and>
      display_interval_cfg (GetConfig p (snd (SetDisplayInterval p t (Finite v) s))) =
        \<lparr>current_value = Finite v, last_changed_unix = t, last_changed_iso = iso8601FromTime p t,
         last_changed_source = ''Cloud/UI''\<rparr>) \<and>
   (0.1 \<le> v \<and> v \<le> 60 \<and>
    (\<forall>c. current_value (serverIntervalCfg s) = Finite c \<longrightarrow> \<not> \<bar>c - v\<bar> < 0.0001) \<longrightarrow>
      status (fst (SetServerInterval p t (Finite v) s)) = ''ok'' \<and>
      server_interval_cfg (GetConfig p (snd (SetServerInterval p t (Finite v) s))) =
        \<lparr>current_value = Finite v, last_changed_unix = t, last_changed_iso = iso8601FromTime p t,
         last_changed_source = ''Cloud/UI''\<rparr>)"
  by (auto simp add: SetDisplayInterval_def SetServerInterval_def new_result_def GetConfig_def
      savePersistent_frame duplicate_test)

theorem set_then_get_witness:
  "status (fst (SetDisplayInterval example_platform 9 (Finite 2.5) example_state)) = ''ok'' \<and>
   display_interval_cfg (GetConfig example_platform
       (snd (SetDisplayInterval example_platform 9 (Finite 2.5) example_state))) =
     \<lparr>current_value = Finite 2.5, last_changed_unix = 9, last_changed_iso = ''2024-05-17T09:30:00Z'',
      last_changed_source = ''Cloud/UI''\<rparr> \<and>
   status (fst (SetServerInterval example_platform 9 (Finite 2.5) example_state)) = ''ok'' \<and>
   server_interval_cfg (GetConfig example_platform
       (snd (SetServerInterval example_platform 9 (Finite 2.5) example_state))) =
     \<lparr>current_value = Finite 2.5, last_changed_unix = 9, last_changed_iso = ''2024-05-17T09:30:00Z'',
      last_changed_source = ''Cloud/UI''\<rparr> \<and>
   display_interval_cfg (GetConfig example_platform
       (snd (SetDisplayInterval example_platform 9 (Finite 2.5)
          (first_boot example_platform 0 0 erased_record)))) =
     \<lparr>current_value = Finite 2.5, last_changed_unix = 9, last_changed_iso = ''2024-05-17T09:30:00Z'',
      last_changed_source = ''Cloud/UI''\<rparr>"
proof -
  have n: "current_value (displayIntervalCfg (first_boot example_platform 0 0 erased_record)) = NaN"
    by (simp add: first_boot_def setup_fw_def loadPersistent_def Let_def boot_state_def
        erased_record_eq)
  show ?thesis
    using set_then_get [of "2.5" example_state example_platform 9]
      set_then_get [of "2.5" "first_boot example_platform 0 0 erased_record" example_platform 9]
    by (simp add: example_state_eq example_iso n)
qed

text \<open>A change is written to storage at once: one write, holding the new value.\<close>

lemma SetDisplayInterval_persists:
  assumes "0.1 \<le> v" and "v \<le> 60"
    and "\<forall>c. current_value (displayIntervalCfg s) = Finite c \<longrightarrow> \<not> \<bar>c - v\<bar> < 0.0001"
  shows "display_interval (eeprom (snd (SetDisplayInterval p t (Finite v) s))) = Finite v"
    and "eeprom_puts (snd (SetDisplayInterval p t (Finite v) s)) = Suc (eeprom_puts s)"
  using assms
  by (auto simp add: SetDisplayInterval_def savePersistent_frame savePersistent_stores
      duplicate_test)

lemma SetServerInterval_persists:
  assumes "0.1 \<le> v" and "v \<le> 60"
    and "\<forall>c. current_value (serverIntervalCfg s) = Finite c \<longrightarrow> \<not> \<bar>c - v\<bar> < 0.0001"
  shows "server_interval (eeprom (snd (SetServerInterval p t (Finite v) s))) = Finite v"
    and "eeprom_puts (snd (SetServerInterval p t (Finite v) s)) = Suc (eeprom_puts s)"
  using assms
  by (auto simp add: SetServerInterval_def savePersistent_frame savePersistent_stores
      duplicate_test)

lemma SetDisplayInterval_frame:
  "serverIntervalCfg (snd (SetDisplayInterval p t v s)) = serverIntervalCfg s"
  "boot_count (persistent (snd (SetDisplayInterval p t v s))) = boot_count (persistent s)"
  "sendSuccessCount (snd (SetDisplayInterval p t v s)) = sendSuccessCount s"
  "sendFailCount (snd (SetDisplayInterval p t v s)) = sendFailCount s"
  "sampleCounter (snd (SetDisplayInterval p t v s)) = sampleCounter s"
  by (simp_all add: SetDisplayInterval_def savePersistent_frame)

lemma SetServerInterval_frame:
  "displayIntervalCfg (snd (SetServerInterval p t v s)) = displayIntervalCfg s"
  "boot_count (persistent (snd (SetServerInterval p t v s))) = boot_count (persistent s)"
  "sendSuccessCount (snd (SetServerInterval p t v s)) = sendSuccessCount s"
  "sendFailCount (snd (SetServerInterval p t v s)) = sendFailCount s"
  "sampleCounter (snd (SetServerInterval p t v s)) = sampleCounter s"
  by (simp_all add: SetServerInterval_def savePersistent_frame)

text \<open>
  C10: \<^verbatim>\<open>SetDisplayInterval\<close> leaves the server-interval parameter (value, timestamp,
  source) as it was, \<^verbatim>\<open>SetServerInterval\<close> leaves the display-interval parameter as it
  was, and neither changes the boot count, the two send counters or the sample counter,
  for every argument and state.
\<close>

theorem setters_frame:
  "serverIntervalCfg (snd (SetDisplayInterval p t v s)) = serverIntervalCfg s \<and>
   displayIntervalCfg (snd (SetServerInterval p t v s)) = displayIntervalCfg s \<and>
   boot_count (persistent (snd (SetDisplayInterval p t v s))) = boot_count (persistent s) \<and>
   sendSuccessCount (snd (SetDisplayInterval p t v s)) = sendSuccessCount s \<and>
   sendFailCount (snd (SetDisplayInterval p t v s)) = sendFailCount s \<and>
   sampleCounter (snd (SetDisplayInterval p t v s)) = sampleCounter s \<and>
   boot_count (persistent (snd (SetServerInterval p t v s))) = boot_count (persistent s) \<and>
   sendSuccessCount (snd (SetServerInterval p t v s)) = sendSuccessCount s \<and>
   sendFailCount (snd (SetServerInterval p t v s)) = sendFailCount s \<and>
   sampleCounter (snd (SetServerInterval p t v s)) = sampleCounter s"
  by (simp add: SetDisplayInterval_frame SetServerInterval_frame)

section \<open>The sample counter\<close>

lemma GetReadings_counter:
  "sample_id (fst (GetReadings p t s)) = sampleCounter s + 1"
  "sampleCounter (snd (GetReadings p t s)) = sampleCounter s + 1"
  by (simp_all add: GetReadings_def Let_def)

lemma GetReadings_fields:
  "status_rd (fst (GetReadings p t s)) = ''ok''"
  "unix_ts (fst (GetReadings p t s)) = t"
  "iso_time (fst (GetReadings p t s)) = iso8601FromTime p t"
  "server_interval_rd (fst (GetReadings p t s)) = current_value (serverIntervalCfg s)"
  "display_interval_rd (fst (GetReadings p t s)) = current_value (displayIntervalCfg s)"
  by (simp_all add: GetReadings_def Let_def)

lemma run_command_sampleCounter:
  "sampleCounter (run_command p c s) = sampleCounter s"
  by (cases c) (simp_all add: SetDisplayInterval_frame SetServerInterval_frame)

lemma run_commands_sampleCounter:
  "sampleCounter (run_commands p cs s) = sampleCounter s"
  by (induction cs arbitrary: s) (simp_all add: run_command_sampleCounter)

lemma load_save_sampleCounter:
  "sampleCounter (loadPersistent p t1 t2 s) = sampleCounter s"
  "sampleCounter (setup_fw p t1 t2 s) = sampleCounter s"
  by (simp_all add: loadPersistent_def setup_fw_def Let_def)

text \<open>After \<open>n\<close> samples the counter has advanced by \<open>n\<close>, modulo \<open>2 ^ 32\<close>.\<close>

lemma take_samples_counter:
  "sampleCounter (take_samples p ts s) = sampleCounter s + of_nat (length ts)"
  by (induction ts arbitrary: s) (simp_all add: GetReadings_counter)

lemma unat_succ:
  fixes w :: "32 word"
  assumes "w \<noteq> 0xFFFFFFFF"
  shows "unat (w + 1) = unat w + 1"
proof -
  have m: "unat (0xFFFFFFFF :: 32 word) = 4294967295" by simp
  have "unat w \<noteq> unat (0xFFFFFFFF :: 32 word)"
    using assms word_unat_eq_iff by blast
  then have ne: "unat w \<noteq> 4294967295" unfolding m .
  have lt: "unat w < 2 ^ 32" using unsigned_less [of w] by simp
  have "unat (w + 1) = (unat w + 1) mod 2 ^ 32"
    by (simp add: unat_word_ariths)
  also have "\<dots> = unat w + 1"
    using ne lt by simp
  finally show ?thesis .
qed

text \<open>A counter of \<open>2 ^ 32 - 2\<close> is what 4294967294 samples after a boot leave.\<close>

lemma take_samples_near_wrap:
  assumes "length ts = 4294967294"
  shows "sampleCounter (take_samples p ts (setup_fw p t1 t2 (boot_state rom))) = 0xFFFFFFFE"
  by (simp add: take_samples_counter assms load_save_sampleCounter boot_state_def)

text \<open>
  The counter is a \<^verbatim>\<open>uint32_t\<close>: the sample after the one numbered \<open>2 ^ 32 - 1\<close> is
  numbered 0. Two consecutive samples, from a counter of \<open>2 ^ 32 - 2\<close>.
\<close>

theorem sample_id_wraps_counterexample:
  "sample_id (fst (GetReadings example_platform 0
      (example_state\<lparr>sampleCounter := 0xFFFFFFFE\<rparr>))) = 0xFFFFFFFF \<and>
   sample_id (fst (GetReadings example_platform 1 (snd (GetReadings example_platform 0
      (example_state\<lparr>sampleCounter := 0xFFFFFFFE\<rparr>))))) = 0"
  by (simp add: GetReadings_counter)

text \<open>
  C9, amended: the first sample after a boot has \<open>sample_id\<close> 1. The \<open>sample_id\<close> of a
  sample is that of the sample before it plus 1 modulo \<open>2 ^ 32\<close>, whatever calls of
  \<^verbatim>\<open>GetConfig\<close> and of the two setters come between the two; it is greater by
  exactly 1 unless the sample before had \<open>sample_id\<close> \<open>2 ^ 32 - 1\<close>.
\<close>

theorem sample_id_steps:
  "sample_id (fst (GetReadings p t (setup_fw p t1 t2 (boot_state rom)))) = 1 \<and>
   sample_id (fst (GetReadings p t' (run_commands p cs (snd (GetReadings p t s))))) =
     sample_id (fst (GetReadings p t s)) + 1 \<and>
   (sample_id (fst (GetReadings p t s)) \<noteq> 0xFFFFFFFF \<longrightarrow>
      unat (sample_id (fst (GetReadings p t' (run_commands p cs (snd (GetReadings p t s)))))) =
        unat (sample_id (fst (GetReadings p t s))) + 1)"
proof -
  let ?a = "sample_id (fst (GetReadings p t s))"
  let ?b = "sample_id (fst (GetReadings p t' (run_commands p cs (snd (GetReadings p t s)))))"
  have first: "sample_id (fst (GetReadings p t (setup_fw p t1 t2 (boot_state rom)))) = 1"
    by (simp add: GetReadings_counter load_save_sampleCounter boot_state_def)
  have step: "?b = ?a + 1"
    by (simp add: GetReadings_counter run_commands_sampleCounter)
  have "?a \<noteq> 0xFFFFFFFF \<longrightarrow> unat ?b = unat ?a + 1"
    unfolding step using unat_succ by blast
  with first step show ?thesis by blast
qed

theorem sample_id_steps_witness:
  "sample_id (fst (GetReadings example_platform 5 example_state)) = 1 \<and>
   sample_id (fst (GetReadings example_platform 8
     (run_commands example_platform
        [CmdSetDisplayInterval 6 (Finite 2.5), CmdGetConfig, CmdSetServerInterval 7 (Finite 0.05)]
        (snd (GetReadings example_platform 5 example_state))))) = 2 \<and>
   unat (sample_id (fst (GetReadings example_platform 8
     (run_commands example_platform
        [CmdSetDisplayInterval 6 (Finite 2.5), CmdGetConfig, CmdSetServerInterval 7 (Finite 0.05)]
        (snd (GetReadings example_platform 5 example_state)))))) = 2"
  using sample_id_steps [of example_platform 5 0 0
      "\<lparr>display_interval = Finite 0, server_interval = Finite 0, boot_count = 0\<rparr>" 8
      "[CmdSetDisplayInterval 6 (Finite 2.5), CmdGetConfig, CmdSetServerInterval 7 (Finite 0.05)]" example_state]
  by (simp add: GetReadings_counter example_state_def load_save_sampleCounter boot_state_def)

section \<open>Reading the status line\<close>

lemma digits_value_snoc:
  "digits_value (ds @ [c]) = digits_value ds * 10 + (of_char c - 48)"
  by (simp add: digits_value_def)

lemma of_char_digit:
  assumes "d < 10"
  shows "(of_char (char_of (48 + d :: nat)) :: int) = 48 + int d"
    and "(of_char (char_of (48 + d :: nat)) :: nat) = 48 + d"
proof -
  show n: "(of_char (char_of (48 + d :: nat)) :: nat) = 48 + d"
    using assms by (simp add: of_char_of)
  have "(of_char (char_of (48 + d :: nat)) :: int) = int (of_char (char_of (48 + d :: nat)))"
    by (simp only: of_nat_of_char)
  then show "(of_char (char_of (48 + d :: nat)) :: int) = 48 + int d"
    unfolding n by simp
qed

lemma digits_value_dec: "digits_value (dec n) = int n"
proof (induction n rule: dec.induct)
  case (1 n)
  show ?case
  proof (cases "n < 10")
    case True
    then show ?thesis
      by (subst dec.simps) (simp add: digits_value_def of_char_digit)
  next
    case False
    then have "digits_value (dec (n div 10)) = int (n div 10)" using 1 by simp
    moreover have "n mod 10 < 10" by simp
    ultimately show ?thesis using False
      by (subst dec.simps) (simp add: digits_value_snoc of_char_digit(1) zdiv_int zmod_int)
  qed
qed

lemma isdigit_dec: "c \<in> set (dec n) \<Longrightarrow> isdigit c"
proof (induction n rule: dec.induct)
  case (1 n)
  show ?case
  proof (cases "n < 10")
    case True
    then show ?thesis using 1(2)
      by (subst (asm) dec.simps) (simp add: isdigit_def of_char_digit(2))
  next
    case False
    have "n mod 10 < 10" by simp
    then have "isdigit (char_of (48 + n mod 10))"
      by (simp only: isdigit_def of_char_digit(2)) simp
    then show ?thesis using False 1
      by (subst (asm) (2) dec.simps) auto
  qed
qed

lemma length_dec3:
  assumes "100 \<le> n" and "n < 1000"
  shows "length (dec n) = 3"
proof -
  have a: "\<not> n < 10" "\<not> n div 10 < 10" "n div 10 div 10 < 10"
    using assms by auto
  show ?thesis
    by (subst dec.simps, simp add: a, subst dec.simps, simp add: a, subst dec.simps, simp add: a)
qed

lemma dec_nonempty: "dec n \<noteq> []"
  by (subst dec.simps) simp

lemma digit_not_space: "isdigit c \<Longrightarrow> \<not> isspace c"
  by (auto simp: isdigit_def isspace_def)

lemma digit_not_sign: "isdigit c \<Longrightarrow> c \<noteq> CHR ''-'' \<and> c \<noteq> CHR ''+''"
  by (auto simp: isdigit_def)

lemma toInt_digits:
  assumes "ds \<noteq> []" and "\<forall>c \<in> set ds. isdigit c"
  shows "toInt ds = digits_value ds"
proof -
  obtain c cs where ds: "ds = c # cs" using assms(1) by (cases ds) auto
  have c: "isdigit c" using assms(2) ds by simp
  have tw: "takeWhile isdigit (c # cs) = c # cs"
    using assms(2) ds by (simp add: takeWhile_eq_all_conv)
  have dw: "dropWhile isspace (c # cs) = c # cs"
    using digit_not_space [OF c] by simp
  show ?thesis
    unfolding toInt_def atol_def ds dw using digit_not_sign [OF c] tw by simp
qed

lemma toInt_dec: "toInt (dec n) = int n"
  using toInt_digits [OF dec_nonempty, of n] isdigit_dec digits_value_dec by simp

lemma toInt_503: "toInt ''503'' = 503"
  by (simp add: toInt_def atol_def isspace_def isdigit_def digits_value_def)

text \<open>A line that starts with \<^verbatim>\<open>HTTP/1.1\<close> and a space: the status is read from the next three characters.\<close>

lemma send_answered_status:
  assumes "take 9 line = ''HTTP/1.1 ''"
  shows "sendReadingsToServer (Answered line) r s =
     (200 \<le> toInt (take 3 (drop 9 line)) \<and> toInt (take 3 (drop 9 line)) < 300,
      toInt (take 3 (drop 9 line)), s\<lparr>sent := sent s @ [r]\<rparr>)"
proof -
  have len: "9 \<le> length line"
  proof (rule ccontr)
    assume "\<not> 9 \<le> length line"
    then have "length (take 9 line) < 9" by simp
    with assms show False by simp
  qed
  have sub: "substring line 9 12 = take 3 (drop 9 line)"
    using len by (auto simp: substring_def min_def)
  have l9: "length ''HTTP/1.1 '' = 9" by simp
  have sw: "startsWith line ''HTTP/1.1 ''"
    unfolding startsWith_def l9 using len assms by blast
  show ?thesis
    by (simp add: sendReadingsToServer_def Let_def sw sub)
qed

lemma send_status_code:
  assumes "100 \<le> n" and "n < 1000"
  shows "sendReadingsToServer (Answered (''HTTP/1.1 '' @ dec n @ rest)) r s =
     (200 \<le> n \<and> n < 300, int n, s\<lparr>sent := sent s @ [r]\<rparr>)"
proof -
  have t9: "take 9 (''HTTP/1.1 '' @ dec n @ rest) = ''HTTP/1.1 ''" by simp
  have "drop 9 (''HTTP/1.1 '' @ dec n @ rest) = dec n @ rest" by simp
  then have t3: "take 3 (drop 9 (''HTTP/1.1 '' @ dec n @ rest)) = dec n"
    using length_dec3 [OF assms] by simp
  show ?thesis
    unfolding send_answered_status [OF t9] t3 toInt_dec by simp
qed

section \<open>The send routine and the push on demand\<close>

lemma dec_examples: "dec 200 = ''200''" "dec 404 = ''404''" "dec 503 = ''503''"
  by (simp_all add: dec.simps char_of_def bit_0)

text \<open>
  C4: \<^verbatim>\<open>sendReadingsToServer\<close> reports failure with status 0 when the connection is
  refused, when no line arrives in time, and when the line does not start with
  \<^verbatim>\<open>HTTP/1.1\<close> and a space. Otherwise the status is the number read from the three
  characters that follow, it is handed back whatever it is, and the result is success
  exactly when it is at least 200 and below 300. A status code \<open>n\<close> of three digits is
  read as \<open>n\<close>.
\<close>

theorem send_classifies:
  "sendReadingsToServer ConnectFailed r s = (False, 0, s\<lparr>sent := sent s @ [r]\<rparr>) \<and>
   sendReadingsToServer (Answered []) r s = (False, 0, s\<lparr>sent := sent s @ [r]\<rparr>) \<and>
   (\<not> startsWith line ''HTTP/1.1 '' \<longrightarrow>
      sendReadingsToServer (Answered line) r s = (False, 0, s\<lparr>sent := sent s @ [r]\<rparr>)) \<and>
   (startsWith line ''HTTP/1.1 '' \<longrightarrow>
      sendReadingsToServer (Answered line) r s =
        (200 \<le> toInt (substring line 9 12) \<and> toInt (substring line 9 12) < 300,
         toInt (substring line 9 12), s\<lparr>sent := sent s @ [r]\<rparr>)) \<and>
   (100 \<le> n \<and> n < 1000 \<longrightarrow>
      sendReadingsToServer (Answered (''HTTP/1.1 '' @ dec n @ rest)) r s =
        (200 \<le> n \<and> n < 300, int n, s\<lparr>sent := sent s @ [r]\<rparr>))"
proof -
  have a: "sendReadingsToServer ConnectFailed r s = (False, 0, s\<lparr>sent := sent s @ [r]\<rparr>)"
    by (simp add: sendReadingsToServer_def Let_def)
  have b: "sendReadingsToServer (Answered []) r s = (False, 0, s\<lparr>sent := sent s @ [r]\<rparr>)"
    by (simp add: sendReadingsToServer_def Let_def startsWith_def)
  have c: "\<not> startsWith line ''HTTP/1.1 '' \<longrightarrow>
      sendReadingsToServer (Answered line) r s = (False, 0, s\<lparr>sent := sent s @ [r]\<rparr>)"
    by (simp add: sendReadingsToServer_def Let_def)
  have d: "startsWith line ''HTTP/1.1 '' \<longrightarrow>
      sendReadingsToServer (Answered line) r s =
        (200 \<le> toInt (substring line 9 12) \<and> toInt (substring line 9 12) < 300,
         toInt (substring line 9 12), s\<lparr>sent := sent s @ [r]\<rparr>)"
    by (simp add: sendReadingsToServer_def Let_def)
  have e: "100 \<le> n \<and> n < 1000 \<longrightarrow>
      sendReadingsToServer (Answered (''HTTP/1.1 '' @ dec n @ rest)) r s =
        (200 \<le> n \<and> n < 300, int n, s\<lparr>sent := sent s @ [r]\<rparr>)"
    using send_status_code by blast
  from a b c d e show ?thesis by blast
qed

theorem send_classifies_witness:
  "fst (sendReadingsToServer (Answered ''HTTP/1.1 200 OK'')
      (fst (GetReadings example_platform 5 example_state)) example_state) \<and>
   fst (snd (sendReadingsToServer (Answered ''HTTP/1.1 200 OK'')
      (fst (GetReadings example_platform 5 example_state)) example_state)) = 200 \<and>
   sendReadingsToServer (Answered ''HTTP/1.1 404 Not Found'')
      (fst (GetReadings example_platform 5 example_state)) example_state =
     (False, 404, example_state\<lparr>sent := [fst (GetReadings example_platform 5 example_state)]\<rparr>) \<and>
   sendReadingsToServer (Answered ''HTTP/1.0 200 OK'')
      (fst (GetReadings example_platform 5 example_state)) example_state =
     (False, 0, example_state\<lparr>sent := [fst (GetReadings example_platform 5 example_state)]\<rparr>)"
  using send_classifies [of "fst (GetReadings example_platform 5 example_state)" example_state
      "''HTTP/1.0 200 OK''" 200 "'' OK''"]
    send_classifies [of "fst (GetReadings example_platform 5 example_state)" example_state
      "''HTTP/1.0 200 OK''" 404 "'' Not Found''"]
  by (simp add: dec_examples startsWith_def example_state_eq)

text \<open>
  Only a status line that starts with \<^verbatim>\<open>HTTP/1.1\<close> and a space is read. An answer with
  status 503 under version 1.0 of the protocol is a failure with \<open>http_status\<close> 0. The
  counter is a \<^verbatim>\<open>uint32_t\<close>: from \<open>2 ^ 32 - 1\<close> it goes to 0.
\<close>

theorem PushNow_http10_counterexample:
  "status (fst (PushNow example_platform 5 (Answered ''HTTP/1.0 503 Service Unavailable'')
      example_state)) = ''error'' \<and>
   http_status (fst (PushNow example_platform 5 (Answered ''HTTP/1.0 503 Service Unavailable'')
      example_state)) = Some 0 \<and>
   sendFailCount (snd (PushNow example_platform 5 (Answered ''HTTP/1.1 503 Service Unavailable'')
      (example_state\<lparr>sendFailCount := 0xFFFFFFFF\<rparr>))) = 0"
  by (simp add: PushNow_def sendReadingsToServer_def GetReadings_def Let_def new_result_def
      startsWith_def substring_def toInt_503)

text \<open>
  C1, amended: when the line that answers the request starts with \<^verbatim>\<open>HTTP/1.1 503\<close>,
  \<^verbatim>\<open>PushNow\<close> returns status \<open>error\<close> with reason \<open>send_failed\<close> and \<open>http_status\<close> 503,
  adds 1 modulo \<open>2 ^ 32\<close> to \<open>sendFailCount\<close> and leaves \<open>sendSuccessCount\<close> as it was,
  in every state.
\<close>

theorem PushNow_503:
  assumes "take 12 line = ''HTTP/1.1 503''"
  shows "status (fst (PushNow p t (Answered line) s)) = ''error'' \<and>
         error_reason (fst (PushNow p t (Answered line) s)) = ''send_failed'' \<and>
         http_status (fst (PushNow p t (Answered line) s)) = Some 503 \<and>
         sendFailCount (snd (PushNow p t (Answered line) s)) = sendFailCount s + 1 \<and>
         sendSuccessCount (snd (PushNow p t (Answered line) s)) = sendSuccessCount s"
proof -
  have "take 9 (take 12 line) = take 9 line" by simp
  then have t9: "take 9 line = ''HTTP/1.1 ''" using assms by simp
  have "drop 9 (take 12 line) = take 3 (drop 9 line)" by (simp add: drop_take)
  then have t3: "take 3 (drop 9 line) = ''503''" using assms by simp
  show ?thesis
    by (simp add: PushNow_def send_answered_status [OF t9] t3 toInt_503 GetReadings_def Let_def
        new_result_def)
qed

theorem PushNow_503_witness:
  "status (fst (PushNow example_platform 5 (Answered ''HTTP/1.1 503 Service Unavailable'')
      example_state)) = ''error'' \<and>
   http_status (fst (PushNow example_platform 5 (Answered ''HTTP/1.1 503 Service Unavailable'')
      example_state)) = Some 503 \<and>
   sendFailCount (snd (PushNow example_platform 5 (Answered ''HTTP/1.1 503 Service Unavailable'')
      example_state)) = 1 \<and>
   sendSuccessCount (snd (PushNow example_platform 5 (Answered ''HTTP/1.1 503 Service Unavailable'')
      example_state)) = 0"
  using PushNow_503 [of "''HTTP/1.1 503 Service Unavailable''" example_platform 5 example_state]
  by (simp add: example_state_eq)

text \<open>\<^verbatim>\<open>PushNow\<close> in general: one sample, one send, one counter advanced by 1.\<close>

lemma PushNow_outcome:
  "PushNow p t net s =
     (let r = fst (GetReadings p t s);
          ok = fst (sendReadingsToServer net r (snd (GetReadings p t s)));
          code = fst (snd (sendReadingsToServer net r (snd (GetReadings p t s))));
          s2 = snd (snd (sendReadingsToServer net r (snd (GetReadings p t s))))
      in if ok
         then (\<lparr>status = ''ok'', error_reason = [], http_status = Some code\<rparr>,
               s2\<lparr>sendSuccessCount := sendSuccessCount s + 1,
                  logged := logged s @ [(LogInfo, ''PushNow succeeded (%d)'', code)],
                  published := published s @ [(''sensor/push'', ''manual_ok'')]\<rparr>)
         else (\<lparr>status = ''error'', error_reason = ''send_failed'', http_status = Some code\<rparr>,
               s2\<lparr>sendFailCount := sendFailCount s + 1,
                  logged := logged s @ [(LogError, ''PushNow failed (%d)'', code)],
                  published := published s @ [(''sensor/push'', ''manual_error'')]\<rparr>))"
  by (cases net)
    (simp_all add: PushNow_def sendReadingsToServer_def GetReadings_def Let_def new_result_def)

lemma PushNow_sampleCounter:
  "sampleCounter (snd (PushNow p t net s)) = sampleCounter s + 1"
  by (cases net)
    (simp_all add: PushNow_def sendReadingsToServer_def GetReadings_def Let_def)

text \<open>
  The template has no transport: its \<^verbatim>\<open>PushNow\<close> reports success with status 200
  every time and takes no sample.
\<close>

lemma PushNow_template_ok:
  "PushNow_template s =
     (\<lparr>status = ''ok'', error_reason = [], http_status = Some 200\<rparr>,
      s\<lparr>sendSuccessCount := sendSuccessCount s + 1\<rparr>)"
  by (simp add: PushNow_template_def new_result_def)

section \<open>The scheduled push\<close>

lemma pow2_nonpos: "j \<le> 0 \<Longrightarrow> pow2 j = 1 / 2 ^ nat (- j)"
  by (cases "j = 0") (simp_all add: pow2_def)

lemma pow2_ge_24:
  assumes "24 \<le> e"
  shows "16777216 \<le> pow2 e"
proof -
  have "(2::real) ^ 24 \<le> 2 ^ nat e"
    using assms by (intro power_increasing) auto
  then show ?thesis using assms by (simp add: pow2_def)
qed

lemma float_exponent_bounds:
  "- 126 \<le> float_exponent k a"
  "a < 16777216 \<Longrightarrow> float_exponent k a \<le> 23"
proof -
  show "- 126 \<le> float_exponent k a"
    by (induction k) simp_all
  show "a < 16777216 \<Longrightarrow> float_exponent k a \<le> 23"
  proof (induction k)
    case 0
    then show ?case by simp
  next
    case (Suc k)
    show ?case
    proof (cases "pow2 (int k - 126) \<le> a")
      case True
      have "\<not> 24 \<le> int k - 126"
      proof
        assume "24 \<le> int k - 126"
        then have "16777216 \<le> pow2 (int k - 126)" by (rule pow2_ge_24)
        with True Suc.prems show False by linarith
      qed
      with True show ?thesis by simp
    next
      case False
      with Suc show ?thesis by simp
    qed
  qed
qed

lemma round_half_even_le:
  assumes "y \<le> of_int k"
  shows "round_half_even y \<le> k"
proof -
  have f: "\<lfloor>y\<rfloor> \<le> k" using assms by (simp add: floor_le_iff)
  show ?thesis
  proof (cases "y = of_int k")
    case True
    then show ?thesis by (simp add: round_half_even_def)
  next
    case False
    then have "y < of_int k" using assms by simp
    then have "\<lfloor>y\<rfloor> < k" by (simp add: floor_less_iff)
    then show ?thesis using f by (simp add: round_half_even_def Let_def)
  qed
qed

lemma round_half_even_nonneg:
  assumes "0 \<le> y"
  shows "0 \<le> round_half_even y"
proof -
  have "0 \<le> \<lfloor>y\<rfloor>" using assms by simp
  then show ?thesis by (simp add: round_half_even_def Let_def)
qed

text \<open>
  A number of seconds from 0 to below \<open>2 ^ 24\<close> that is at most the whole number \<open>d\<close>
  is still at most \<open>d\<close> after rounding to a \<^verbatim>\<open>float\<close> and dropping the fraction.
\<close>

lemma rounded_seconds_le:
  assumes "0 \<le> x" and "x < 16777216" and "x \<le> of_int d"
  shows "\<exists>r. round_float x = Finite r \<and> 0 \<le> r \<and> r \<le> of_int d"
proof -
  define e where "e = float_exponent 254 \<bar>x\<bar>"
  define m where "m = nat (23 - e)"
  define n where "n = round_half_even (x * 2 ^ m)"
  have ax: "\<bar>x\<bar> = x" using assms(1) by simp
  have e: "- 126 \<le> e" "e \<le> 23"
    using float_exponent_bounds [where k = 254 and a = x] assms(2) by (simp_all add: e_def ax)
  have q: "pow2 (e - 23) = 1 / 2 ^ m"
    using e pow2_nonpos [of "e - 23"] by (simp add: m_def)
  have xq: "x / pow2 (e - 23) = x * 2 ^ m" by (simp add: q)
  have bound: "real_of_int n / 2 ^ m \<le> of_int k" if "x \<le> of_int k" for k
  proof -
    have "x * 2 ^ m \<le> of_int k * 2 ^ m" using that by simp
    then have "x * 2 ^ m \<le> of_int (k * 2 ^ m)" by simp
    then have "n \<le> k * 2 ^ m" unfolding n_def by (rule round_half_even_le)
    then have "real_of_int n \<le> real_of_int (k * 2 ^ m)" by linarith
    then have "real_of_int n \<le> of_int k * 2 ^ m" by simp
    then show ?thesis by (simp add: field_simps)
  qed
  have "x \<le> of_int 16777216" using assms(2) by simp
  then have hi: "real_of_int n / 2 ^ m \<le> 16777216" using bound [of 16777216] by simp
  have "0 \<le> x * 2 ^ m" using assms(1) by simp
  then have "0 \<le> n" unfolding n_def by (rule round_half_even_nonneg)
  then have lo: "0 \<le> real_of_int n / 2 ^ m" by simp
  have r: "of_int (round_half_even (x / pow2 (e - 23))) * pow2 (e - 23) = real_of_int n / 2 ^ m"
    by (simp add: xq q n_def)
  have big: "(16777216::real) < pow2 128" by (simp add: pow2_def)
  have "round_float x = Finite (real_of_int n / 2 ^ m)"
    unfolding round_float_def Let_def e_def [symmetric] r
    using hi lo big by simp
  then show ?thesis using lo bound [OF assms(3)] by blast
qed

lemma exact_seconds:
  assumes "0 \<le> v" and "v * 60 < 16777216" and "v * 60 \<le> of_int d"
  shows "\<exists>seconds. to_time_t (fmul (Finite v) (Finite 60)) = Some seconds \<and> seconds \<le> d"
proof -
  have "0 \<le> v * 60" using assms(1) by simp
  from rounded_seconds_le [OF this assms(2) assms(3)]
  obtain r where r: "round_float (v * 60) = Finite r" "0 \<le> r" "r \<le> of_int d" by blast
  have "\<lfloor>r\<rfloor> \<le> d" using r(3) by (simp add: floor_le_iff)
  then show ?thesis using r by (simp add: fmul_def to_time_t_def)
qed

lemma loop_fires:
  assumes "to_time_t (fmul (current_value (serverIntervalCfg s)) (Finite 60)) = Some seconds"
    and "seconds \<le> now - lastServerPush s"
  shows "\<exists>s'. loop p now t net s = Some s' \<and> lastServerPush s' = now \<and>
           sampleCounter s' = sampleCounter s + 1 \<and>
           sent s' = sent s @ [fst (GetReadings p t (s\<lparr>lastServerPush := now\<rparr>))]"
  using assms
  by (cases net) (simp_all add: loop_def GetReadings_def sendReadingsToServer_def Let_def)

lemma loop_idle:
  assumes "to_time_t (fmul (current_value (serverIntervalCfg s)) (Finite 60)) = Some seconds"
    and "\<not> seconds \<le> now - lastServerPush s"
  shows "loop p now t net s = Some s"
  using assms by (simp add: loop_def)

lemma loop_counts:
  assumes "to_time_t (fmul (current_value (serverIntervalCfg s)) (Finite 60)) = Some seconds"
    and "seconds \<le> now - lastServerPush s"
  shows "\<exists>s'. loop p now t net s = Some s' \<and>
           sendSuccessCount s' + sendFailCount s' = sendSuccessCount s + sendFailCount s + 1"
  using assms
  by (cases net) (simp_all add: loop_def GetReadings_def sendReadingsToServer_def Let_def)

lemma fmul_examples:
  "fmul (Finite 5) (Finite 60) = Finite 300"
  "fmul float_035 (Finite 60) = Finite 21"
  by code_simp+

text \<open>
  C3: on a tick whose clock reading \<open>now\<close> is at least the server interval in seconds
  after \<open>lastServerPush\<close>, \<^verbatim>\<open>loop\<close> sets \<open>lastServerPush\<close> to \<open>now\<close>, takes one sample,
  whose \<open>sample_id\<close> is the next one and whose time is the clock reading of the sample,
  and hands exactly that sample to the send routine. The interval in seconds is the
  number the program converts it to (the product with 60 rounded to a \<^verbatim>\<open>float\<close>, then
  cut to whole seconds) or, for an interval of at least 0 and below \<open>2 ^ 24\<close> seconds,
  the exact product with 60.
\<close>

theorem loop_push_phase:
  assumes "(to_time_t (fmul (current_value (serverIntervalCfg s)) (Finite 60)) = Some seconds \<and>
            seconds \<le> now - lastServerPush s) \<or>
           (current_value (serverIntervalCfg s) = Finite v \<and> 0 \<le> v \<and> v * 60 < 16777216 \<and>
            v * 60 \<le> of_int (now - lastServerPush s))"
  shows "\<exists>s'. loop p now t net s = Some s' \<and>
           lastServerPush s' = now \<and>
           sampleCounter s' = sampleCounter s + 1 \<and>
           sent s' = sent s @ [fst (GetReadings p t (s\<lparr>lastServerPush := now\<rparr>))] \<and>
           sample_id (last (sent s')) = sampleCounter s + 1 \<and>
           unix_ts (last (sent s')) = t"
proof -
  have "\<exists>k. to_time_t (fmul (current_value (serverIntervalCfg s)) (Finite 60)) = Some k \<and>
          k \<le> now - lastServerPush s"
    using assms exact_seconds [of v "now - lastServerPush s"] by auto
  then obtain k where k: "to_time_t (fmul (current_value (serverIntervalCfg s)) (Finite 60)) = Some k"
      "k \<le> now - lastServerPush s" by blast
  from loop_fires [OF k] obtain s' where s': "loop p now t net s = Some s'"
      "lastServerPush s' = now" "sampleCounter s' = sampleCounter s + 1"
      "sent s' = sent s @ [fst (GetReadings p t (s\<lparr>lastServerPush := now\<rparr>))]"
    by blast
  have "sample_id (fst (GetReadings p t (s\<lparr>lastServerPush := now\<rparr>))) = sampleCounter s + 1"
       "unix_ts (fst (GetReadings p t (s\<lparr>lastServerPush := now\<rparr>))) = t"
    by (simp_all add: GetReadings_def Let_def)
  then have "sample_id (last (sent s')) = sampleCounter s + 1" "unix_ts (last (sent s')) = t"
    using s'(4) by simp_all
  with s' show ?thesis by blast
qed

text \<open>
  With a server interval of \<^verbatim>\<open>0.35f\<close> the product with 60 rounds to 21: a tick 20
  seconds after the last push does nothing, a tick 21 seconds after it pushes.
\<close>

lemma loop_035_seconds:
  "to_time_t (fmul (current_value (serverIntervalCfg
     (example_state\<lparr>serverIntervalCfg := (serverIntervalCfg example_state)\<lparr>current_value := float_035\<rparr>\<rparr>)))
     (Finite 60)) = Some 21"
  by (simp add: fmul_examples to_time_t_def)

lemma loop_035_early:
  "loop example_platform 20 20 net
     (example_state\<lparr>serverIntervalCfg := (serverIntervalCfg example_state)\<lparr>current_value := float_035\<rparr>\<rparr>) =
   Some (example_state\<lparr>serverIntervalCfg := (serverIntervalCfg example_state)\<lparr>current_value := float_035\<rparr>\<rparr>)"
proof -
  have "lastServerPush (example_state\<lparr>serverIntervalCfg :=
      (serverIntervalCfg example_state)\<lparr>current_value := float_035\<rparr>\<rparr>) = 0"
    by (simp add: example_state_eq)
  then show ?thesis
    using loop_idle [OF loop_035_seconds, of 20 example_platform 20 net] by simp
qed

theorem loop_push_phase_witness:
  "(\<exists>s'. loop example_platform 21 22 (Answered ''HTTP/1.1 200 OK'')
       (example_state\<lparr>serverIntervalCfg :=
          (serverIntervalCfg example_state)\<lparr>current_value := float_035\<rparr>\<rparr>) = Some s' \<and>
     lastServerPush s' = 21 \<and> sampleCounter s' = 1 \<and>
     sample_id (last (sent s')) = 1 \<and> unix_ts (last (sent s')) = 22) \<and>
   (\<exists>s'. loop example_platform 300 301 ConnectFailed example_state = Some s' \<and>
     lastServerPush s' = 300 \<and> sampleCounter s' = 1 \<and>
     sample_id (last (sent s')) = 1 \<and> unix_ts (last (sent s')) = 301)"
proof -
  let ?s = "example_state\<lparr>serverIntervalCfg :=
      (serverIntervalCfg example_state)\<lparr>current_value := float_035\<rparr>\<rparr>"
  have a: "to_time_t (fmul (current_value (serverIntervalCfg ?s)) (Finite 60)) = Some 21 \<and>
      21 \<le> 21 - lastServerPush ?s"
    using loop_035_seconds by (simp add: example_state_eq)
  have c: "sampleCounter ?s + 1 = 1" "sampleCounter example_state + 1 = 1"
    by (simp_all add: example_state_eq)
  have b: "current_value (serverIntervalCfg example_state) = Finite 5 \<and> (0::real) \<le> 5 \<and>
      (5::real) * 60 < 16777216 \<and> (5::real) * 60 \<le> of_int (300 - lastServerPush example_state)"
    by (simp add: example_state_eq)
  show ?thesis
    using loop_push_phase [OF disjI1, OF a, of example_platform 22 "Answered ''HTTP/1.1 200 OK''"]
      loop_push_phase [OF disjI2, OF b, of example_platform 301 ConnectFailed]
    unfolding c by blast
qed

text \<open>
  Where the interval is NaN the conversion has no result. The template's \<^verbatim>\<open>loop\<close>
  never does anything.
\<close>

lemma loop_nan:
  assumes "current_value (serverIntervalCfg s) = NaN"
  shows "loop p now t net s = None"
  using assms by (simp add: loop_def fmul_def to_time_t_def)

lemma loop_template_idle: "loop_template s = s"
  by (simp add: loop_template_def)

end
